theory Spec2Isabelle
  imports Main "HOL-Library.AList"
begin

section \<open>Python values shared by the embedded modules\<close>

text \<open>
  Exceptions are values. \<open>KeyboardInterrupt\<close> and \<open>SystemExit\<close> derive from
  \<open>BaseException\<close> only; every other class below derives from \<open>Exception\<close>, which is
  what an \<open>except Exception\<close> clause catches.
\<close>

datatype py_error =
    AttributeError
  | IndexError
  | KeyError
  | ImportError
  | FileNotFoundError
  | IsADirectoryError
  | PermissionError
  | OtherException string
  | KeyboardInterrupt
  | SystemExit

fun isinstance_Exception :: "py_error \<Rightarrow> bool" where
  "isinstance_Exception KeyboardInterrupt = False"
| "isinstance_Exception SystemExit = False"
| "isinstance_Exception _ = True"

text \<open>\<open>s.split(sep)\<close> for a one-character separator: the pieces between separators,
  never an empty list.\<close>

fun split_str :: "char \<Rightarrow> string \<Rightarrow> string list" where
  "split_str sep [] = [[]]"
| "split_str sep (c # cs) =
     (if c = sep then [] # split_str sep cs
      else (case split_str sep cs of
              [] \<Rightarrow> [[c]]
            | p # ps \<Rightarrow> (c # p) # ps))"

text \<open>\<open>xs[-1]\<close>: the last element, \<open>IndexError\<close> on an empty list.\<close>

definition index_last :: "'a list \<Rightarrow> py_error + 'a" where
  "index_last xs = (if xs = [] then Inl IndexError else Inr (last xs))"

text \<open>\<open>s.endswith(t)\<close>.\<close>

definition endswith :: "string \<Rightarrow> string \<Rightarrow> bool" where
  "endswith s t \<longleftrightarrow> length t \<le> length s \<and> drop (length s - length t) s = t"

section \<open>The file system and the path functions of the standard library\<close>

text \<open>
  A path names a directory entry: the place that its last component names in the
  directory its leading components lead to. Two spellings of a path (\<open>/a/W\<close> and
  \<open>/a/./W\<close>, or a path through a symbolic link to a directory) name the same entry.
  The resolution of a path depends on the directories and on the links to directories
  only, which \<open>remove_workflow_files\<close> never changes (it unlinks nothing but what
  \<open>os.path.isfile\<close> accepts), so it is a parameter \<open>entry\<close> of a run, like
  \<open>os.path.abspath\<close>, \<open>os.path.join\<close> and \<open>monty.os.path.zpath\<close>, which belong to
  libraries outside the repository; \<open>zpath\<close> looks at the file system of the moment it
  is called.

  A file system maps an entry to what is stored there: a regular file with its contents,
  a directory, or a symbolic link, given with the entry its target names. Two hard links
  to one file are two entries with the same contents.
\<close>

datatype fs_node = File string | Dir | Symlink string

type_synonym filesystem = "string \<Rightarrow> fs_node option"

text \<open>The operating system refuses to unlink some entries (a directory that may not be
  written, an immutable file, a read-only file system): \<open>unlink_error\<close> gives the error
  \<open>os.remove\<close> then raises, \<open>PermissionError\<close> for instance, and \<open>None\<close> for an entry
  it lets go.\<close>

record os_env =
  abspath :: "string \<Rightarrow> string"
  join :: "string \<Rightarrow> string \<Rightarrow> string"
  zpath :: "filesystem \<Rightarrow> string \<Rightarrow> string"
  entry :: "string \<Rightarrow> string"
  unlink_error :: "string \<Rightarrow> py_error option"

text \<open>\<open>os.stat\<close> follows symbolic links, a bounded number of them (the system call
  fails with \<open>ELOOP\<close> beyond that); \<open>None\<close> is a failed call.\<close>

fun os_stat :: "nat \<Rightarrow> filesystem \<Rightarrow> string \<Rightarrow> fs_node option" where
  "os_stat 0 fs e = None"
| "os_stat (Suc n) fs e =
     (case fs e of
        Some (Symlink t) \<Rightarrow> os_stat n fs t
      | r \<Rightarrow> r)"

definition max_symlinks :: nat where
  "max_symlinks = 40"

text \<open>\<open>os.path.isfile\<close>: whether \<open>os.stat\<close> succeeds and finds a regular file; it never
  raises.\<close>

definition os_path_isfile :: "os_env \<Rightarrow> filesystem \<Rightarrow> string \<Rightarrow> bool" where
  "os_path_isfile env fs p =
     (case os_stat (Suc max_symlinks) fs (entry env p) of
        Some (File _) \<Rightarrow> True
      | _ \<Rightarrow> False)"

text \<open>\<open>os.remove\<close> unlinks the entry the path names and does not follow a link stored
  there. A call that raises leaves the file system as it was.\<close>

definition os_remove :: "os_env \<Rightarrow> filesystem \<Rightarrow> string \<Rightarrow> py_error + filesystem" where
  "os_remove env fs p =
     (let e = entry env p
      in case fs e of
           None \<Rightarrow> Inl FileNotFoundError
         | Some Dir \<Rightarrow> Inl IsADirectoryError
         | Some _ \<Rightarrow>
             (case unlink_error env e of
                Some err \<Rightarrow> Inl err
              | None \<Rightarrow> Inr (fs(e := None))))"

section \<open>atomate2.common.jobs.utils\<close>

text \<open>The expression \<open>dir_name.split(":")[-1]\<close> of \<open>remove_workflow_files\<close> and
  \<open>bader_analysis\<close>.\<close>

definition split_colon_last :: "string \<Rightarrow> py_error + string" where
  "split_colon_last dir_name = index_last (split_str CHR '':'' dir_name)"

text \<open>The list comprehension
  \<open>[os.path.abspath(dir_name.split(":")[-1]) for dir_name in directories]\<close>.\<close>

fun abs_paths_of :: "os_env \<Rightarrow> string list \<Rightarrow> py_error + string list" where
  "abs_paths_of env [] = Inr []"
| "abs_paths_of env (dir_name # directories) =
     (case split_colon_last dir_name of
        Inl e \<Rightarrow> Inl e
      | Inr t \<Rightarrow>
          (case abs_paths_of env directories of
             Inl e \<Rightarrow> Inl e
           | Inr ps \<Rightarrow> Inr (abspath env t # ps)))"

text \<open>
  A run of the job ends with the list it returns or with the exception it raises, and
  leaves a file system behind in both cases: what was removed before an exception stays
  removed, and the list built so far is lost.

  The inner loop \<open>for file in file_names\<close>, on the pair of \<open>removed_files\<close> and the
  file system.
\<close>

fun remove_in_dir ::
  "os_env \<Rightarrow> bool \<Rightarrow> string \<Rightarrow> string list \<Rightarrow> string list \<times> filesystem
     \<Rightarrow> (py_error + string list) \<times> filesystem" where
  "remove_in_dir env allow_zpath job_dir [] st = (Inr (fst st), snd st)"
| "remove_in_dir env allow_zpath job_dir (file # files) st =
     (let removed_files = fst st; fs = snd st;
          file_name = join env job_dir file;
          file_name = (if allow_zpath then zpath env fs file_name else file_name)
      in if os_path_isfile env fs file_name
         then (case os_remove env fs file_name of
                 Inl e \<Rightarrow> (Inl e, fs)
               | Inr fs' \<Rightarrow>
                   remove_in_dir env allow_zpath job_dir files
                     (removed_files @ [file_name], fs'))
         else remove_in_dir env allow_zpath job_dir files st)"

text \<open>The outer loop \<open>for job_dir in abs_paths\<close>.\<close>

fun remove_in_dirs ::
  "os_env \<Rightarrow> bool \<Rightarrow> string list \<Rightarrow> string list \<Rightarrow> string list \<times> filesystem
     \<Rightarrow> (py_error + string list) \<times> filesystem" where
  "remove_in_dirs env allow_zpath [] file_names st = (Inr (fst st), snd st)"
| "remove_in_dirs env allow_zpath (job_dir # abs_paths) file_names st =
     (case remove_in_dir env allow_zpath job_dir file_names st of
        (Inl e, fs') \<Rightarrow> (Inl e, fs')
      | (Inr removed_files, fs') \<Rightarrow>
          remove_in_dirs env allow_zpath abs_paths file_names (removed_files, fs'))"

text \<open>\<open>remove_workflow_files\<close>: the returned list, or the exception, together with the
  file system the job leaves behind.\<close>

definition remove_workflow_files ::
  "os_env \<Rightarrow> string list \<Rightarrow> string list \<Rightarrow> bool \<Rightarrow> filesystem
     \<Rightarrow> (py_error + string list) \<times> filesystem" where
  "remove_workflow_files env directories file_names allow_zpath fs =
     (case abs_paths_of env directories of
        Inl e \<Rightarrow> (Inl e, fs)
      | Inr abs_paths \<Rightarrow> remove_in_dirs env allow_zpath abs_paths file_names ([], fs))"

text \<open>\<open>bader_analysis\<close>; \<open>bader_analysis_from_path\<close> is pymatgen's and a parameter.
  \<open>suffix or ""\<close> turns \<open>None\<close> into the empty string.\<close>

definition bader_analysis ::
  "os_env \<Rightarrow> (string \<Rightarrow> string \<Rightarrow> 'r) \<Rightarrow> string \<Rightarrow> string option \<Rightarrow> py_error + 'r" where
  "bader_analysis env bader_analysis_from_path dir_name suffix =
     (case split_colon_last dir_name of
        Inl e \<Rightarrow> Inl e
      | Inr t \<Rightarrow>
          (let dir_name = abspath env t
           in Inr (bader_analysis_from_path dir_name
                     (case suffix of None \<Rightarrow> '''' | Some s \<Rightarrow> if s = '''' then '''' else s))))"

text \<open>The text after the last colon of a string, the whole string when it has none:
  what the claims call the stripped directory.\<close>

definition text_after_last_colon :: "string \<Rightarrow> string" where
  "text_after_last_colon d = rev (takeWhile (\<lambda>c. c \<noteq> CHR '':'') (rev d))"

text \<open>
  The notions the statements about \<open>remove_workflow_files\<close> use. A check is a pair of
  an absolute job directory and a file name; the checks of a run are all such pairs,
  directory by directory and, within a directory, file name by file name. The path a
  check looks at is the joined path, or what \<open>zpath\<close> makes of it in the file system of
  that moment.
\<close>

definition checks :: "os_env \<Rightarrow> string list \<Rightarrow> string list \<Rightarrow> (string \<times> string) list" where
  "checks env directories file_names =
     List.product (map (\<lambda>d. abspath env (text_after_last_colon d)) directories) file_names"

definition checked_path :: "os_env \<Rightarrow> bool \<Rightarrow> filesystem \<Rightarrow> string \<times> string \<Rightarrow> string" where
  "checked_path env allow_zpath fs c =
     (if allow_zpath then zpath env fs (join env (fst c) (snd c)) else join env (fst c) (snd c))"

text \<open>What one check does to the file system when nothing stops the run: the entry of
  its path goes when the path is a regular file and the system lets the entry go.\<close>

definition check_step :: "os_env \<Rightarrow> bool \<Rightarrow> filesystem \<Rightarrow> string \<times> string \<Rightarrow> filesystem" where
  "check_step env allow_zpath fs c =
     (let p = checked_path env allow_zpath fs c
      in if os_path_isfile env fs p \<and> unlink_error env (entry env p) = None
         then fs(entry env p := None) else fs)"

fun fs_after :: "os_env \<Rightarrow> bool \<Rightarrow> (string \<times> string) list \<Rightarrow> filesystem \<Rightarrow> filesystem" where
  "fs_after env allow_zpath [] fs = fs"
| "fs_after env allow_zpath (c # cs) fs =
     fs_after env allow_zpath cs (check_step env allow_zpath fs c)"

text \<open>The file system at the time of the \<open>k\<close>-th check of a run, the path that check
  looks at, and what the check contributes to the list: its path when that is a regular
  file at the time of the check, nothing otherwise. The check is refused when its path
  is a regular file then and the system does not let its entry go.\<close>

definition fs_at ::
  "os_env \<Rightarrow> bool \<Rightarrow> (string \<times> string) list \<Rightarrow> filesystem \<Rightarrow> nat \<Rightarrow> filesystem" where
  "fs_at env allow_zpath cs fs k = fs_after env allow_zpath (take k cs) fs"

definition path_at ::
  "os_env \<Rightarrow> bool \<Rightarrow> (string \<times> string) list \<Rightarrow> filesystem \<Rightarrow> nat \<Rightarrow> string" where
  "path_at env allow_zpath cs fs k =
     checked_path env allow_zpath (fs_at env allow_zpath cs fs k) (cs ! k)"

definition removed_at ::
  "os_env \<Rightarrow> bool \<Rightarrow> (string \<times> string) list \<Rightarrow> filesystem \<Rightarrow> nat \<Rightarrow> string list" where
  "removed_at env allow_zpath cs fs k =
     (if os_path_isfile env (fs_at env allow_zpath cs fs k) (path_at env allow_zpath cs fs k)
      then [path_at env allow_zpath cs fs k] else [])"

definition refused_at ::
  "os_env \<Rightarrow> bool \<Rightarrow> (string \<times> string) list \<Rightarrow> filesystem \<Rightarrow> nat \<Rightarrow> bool" where
  "refused_at env allow_zpath cs fs k \<longleftrightarrow>
     os_path_isfile env (fs_at env allow_zpath cs fs k) (path_at env allow_zpath cs fs k)
     \<and> unlink_error env (entry env (path_at env allow_zpath cs fs k)) \<noteq> None"

text \<open>The two loops as one loop over the checks.\<close>

fun run_checks ::
  "os_env \<Rightarrow> bool \<Rightarrow> (string \<times> string) list \<Rightarrow> string list \<times> filesystem
     \<Rightarrow> (py_error + string list) \<times> filesystem" where
  "run_checks env allow_zpath [] st = (Inr (fst st), snd st)"
| "run_checks env allow_zpath (c # cs) st =
     (let p = checked_path env allow_zpath (snd st) c
      in if os_path_isfile env (snd st) p
         then (case unlink_error env (entry env p) of
                 Some e \<Rightarrow> (Inl e, snd st)
               | None \<Rightarrow> run_checks env allow_zpath cs (fst st @ [p], (snd st)(entry env p := None)))
         else run_checks env allow_zpath cs st)"

text \<open>
  A sample of the library functions and of the operating system for running the jobs on
  concrete inputs. \<open>posix_join\<close> is POSIX \<open>os.path.join\<close>; \<open>abspath\<close> is that of a
  process whose working directory is \<open>/w\<close>, on paths that need no normalisation. In
  the sample system \<open>/s\<close> is a symbolic link to the directory \<open>/a\<close>: the entry of a path
  is found by dropping its empty and \<open>.\<close> components and by going through that link.
  \<open>sample_zpath\<close> works in the manner of monty's \<open>zpath\<close>: it strips a compression
  suffix and returns the first existing one of the stripped path and its compressed
  variants, the stripped path when there is none. The theorems hold for every
  environment.
\<close>

definition posix_join :: "string \<Rightarrow> string \<Rightarrow> string" where
  "posix_join a b =
     (if take 1 b = ''/'' then b
      else if a = [] \<or> drop (length a - 1) a = ''/'' then a @ b
      else a @ ''/'' @ b)"

definition sample_entry :: "string \<Rightarrow> string" where
  "sample_entry p =
     (let cs = filter (\<lambda>c. c \<noteq> '''' \<and> c \<noteq> ''.'') (split_str CHR ''/'' p);
          cs = (case cs of
                  c # c' # rest \<Rightarrow> if c = ''s'' then ''a'' # c' # rest else cs
                | _ \<Rightarrow> cs)
      in concat (map (\<lambda>c. ''/'' @ c) cs))"

definition sample_zpath :: "filesystem \<Rightarrow> string \<Rightarrow> string" where
  "sample_zpath fs p =
     (let exts = [''.gz'', ''.GZ'', ''.bz2'', ''.BZ2'', ''.z'', ''.Z''];
          base = (case filter (endswith p) exts of
                    [] \<Rightarrow> p
                  | ext # _ \<Rightarrow> take (length p - length ext) p)
      in case filter (\<lambda>q. os_stat (Suc max_symlinks) fs (sample_entry q) \<noteq> None)
                (map (\<lambda>ext. base @ ext) ('''' # exts)) of
           [] \<Rightarrow> base
         | q # _ \<Rightarrow> q)"

definition sample_env :: os_env where
  "sample_env =
     \<lparr>abspath = (\<lambda>p. if take 1 p = ''/'' then p else posix_join ''/w'' p),
      join = posix_join,
      zpath = sample_zpath,
      entry = sample_entry,
      unlink_error = (\<lambda>e. None)\<rparr>"

text \<open>The same system when it does not let the entry \<open>/a/W.gz\<close> go.\<close>

definition guarded_env :: os_env where
  "guarded_env =
     sample_env\<lparr>unlink_error := (\<lambda>e. if e = ''/a/W.gz'' then Some PermissionError else None)\<rparr>"

text \<open>A sample file system: the job directory \<open>/a\<close> with a file \<open>W\<close>, its compressed
  twin, a directory \<open>C\<close>, a file \<open>K\<close> and a link \<open>L\<close> to \<open>W\<close>, and the link \<open>/s\<close>
  to the job directory.\<close>

definition sample_fs :: filesystem where
  "sample_fs =
     [''/a'' \<mapsto> Dir, ''/s'' \<mapsto> Symlink ''/a'',
      ''/a/W'' \<mapsto> File ''1'', ''/a/W.gz'' \<mapsto> File ''2'', ''/a/C'' \<mapsto> Dir,
      ''/a/K'' \<mapsto> File ''3'', ''/a/L'' \<mapsto> Symlink ''/a/W'']"

section \<open>atomate2.qchem.drones\<close>

text \<open>
  \<open>get_valid_paths\<close> receives an \<open>os.walk\<close> triple, whose first component is a
  \<open>str\<close>. The second test of the source evaluates \<open>parent.glob("mol.qout*")\<close> on that
  \<open>str\<close> (the closing parenthesis of \<open>Path(\<close> comes after the call). The class \<open>str\<close>
  has no attribute \<open>glob\<close>, so the attribute lookup raises \<open>AttributeError\<close> before
  any directory is read.
\<close>

definition str_glob :: "string \<Rightarrow> string \<Rightarrow> py_error + string list" where
  "str_glob s pattern = Inl AttributeError"

definition os_sep :: string where
  "os_sep = ''/''"

definition get_valid_paths :: "string \<times> string list \<times> string list \<Rightarrow> py_error + string list" where
  "get_valid_paths path =
     (case path of (parent, subdirs, _) \<Rightarrow>
        (let task_names = [''mol.qout.*'']
         in if set task_names \<inter> set subdirs \<noteq> {} then Inr [parent]
            else if \<not> list_ex (\<lambda>r. endswith parent (os_sep @ r)) task_names
            then (case str_glob parent ''mol.qout*'' of
                    Inl e \<Rightarrow> Inl e
                  | Inr found \<Rightarrow> if length found > 0 then Inr [parent] else Inr [])
            else Inr []))"

text \<open>
  \<open>assimilate\<close>. \<open>TaskDoc.from_directory\<close> is emmet's constructor and a parameter that
  returns a document or raises. \<open>Path.cwd()\<close> and \<open>Path(path).absolute()\<close> ask the
  operating system for the working directory and raise when it is gone. The logger is a
  list of entries, each the absolute path and the exception whose traceback the message
  holds. A run gives the document or the exception, and the logger as it leaves it.
\<close>

record ('kw, 'doc) drone_env =
  from_directory :: "string \<Rightarrow> 'kw \<Rightarrow> py_error + 'doc"
  cwd :: "py_error + string"
  absolute :: "string \<Rightarrow> py_error + string"

type_synonym logger = "(string \<times> py_error) list"

definition assimilate ::
  "('kw, 'doc) drone_env \<Rightarrow> 'kw \<Rightarrow> string option \<Rightarrow> logger \<Rightarrow> (py_error + 'doc) \<times> logger" where
  "assimilate env task_document_kwargs path logger =
     (case (case path of None \<Rightarrow> cwd env | Some p \<Rightarrow> Inr p) of
        Inl e \<Rightarrow> (Inl e, logger)
      | Inr path \<Rightarrow>
          (case from_directory env path task_document_kwargs of
             Inr doc \<Rightarrow> (Inr doc, logger)
           | Inl e \<Rightarrow>
               if isinstance_Exception e
               then (case absolute env path of
                       Inl e' \<Rightarrow> (Inl e', logger)
                     | Inr a \<Rightarrow> (Inl e, logger @ [(a, e)]))
               else (Inl e, logger)))"

text \<open>A sample environment, in which \<open>/calc\<close> is the working directory and the only
  directory the constructor can parse, and the same environment when the parsing is
  interrupted from the keyboard.\<close>

definition sample_drone_env :: "((string \<times> string) list, string) drone_env" where
  "sample_drone_env =
     \<lparr>from_directory =
        (\<lambda>p kw. if p = ''/calc'' then Inr (''TaskDoc of '' @ p) else Inl FileNotFoundError),
      cwd = Inr ''/calc'',
      absolute = (\<lambda>p. Inr p)\<rparr>"

definition interrupted_drone_env :: "((string \<times> string) list, string) drone_env" where
  "interrupted_drone_env = sample_drone_env\<lparr>from_directory := (\<lambda>p kw. Inl KeyboardInterrupt)\<rparr>"

section \<open>The Materials Project lookup of atomate2.common.jobs.utils\<close>

text \<open>
  The structure is pymatgen's. The job reads the keys of its \<open>site_properties\<close> and
  calls its \<open>remove_site_property\<close>; both are parameters.
\<close>

record 'st pymatgen =
  site_properties :: "'st \<Rightarrow> string list"
  remove_site_property :: "'st \<Rightarrow> string \<Rightarrow> 'st"

record origin =
  origin_name :: string
  task_id :: string

record 'st search_doc =
  doc_structure :: 'st
  doc_origins :: "origin list"

text \<open>The client: what \<open>mpr.tasks.search\<close>, \<open>mpr.materials.search\<close> and
  \<open>mpr.get_database_version\<close> answer, a value or an exception (the client talks to a
  server).\<close>

record 'st mp_rester =
  tasks_search :: "string \<Rightarrow> py_error + 'st search_doc list"
  materials_search :: "string \<Rightarrow> py_error + 'st search_doc list"
  get_database_version :: "py_error + string"

record ('o, 'r) response =
  response_output :: 'o
  response_replace :: "'r option"
  response_stored_data :: "(string \<times> string) list option"

text \<open>\<open>xs[0]\<close>.\<close>

definition index_first :: "'a list \<Rightarrow> py_error + 'a" where
  "index_first xs = (case xs of [] \<Rightarrow> Inl IndexError | x # _ \<Rightarrow> Inr x)"

text \<open>The dictionary \<open>{prop.name: prop for prop in doc.origins}\<close>: a later entry replaces
  an earlier one of the same name.\<close>

definition origins_dict :: "origin list \<Rightarrow> string \<Rightarrow> origin option" where
  "origins_dict props = map_of (rev (map (\<lambda>prop. (origin_name prop, prop)) props))"

text \<open>\<open>d[key]\<close>.\<close>

definition dict_get :: "('k \<Rightarrow> 'v option) \<Rightarrow> 'k \<Rightarrow> py_error + 'v" where
  "dict_get d k = (case d k of None \<Rightarrow> Inl KeyError | Some v \<Rightarrow> Inr v)"

text \<open>The body of the \<open>with\<close> block up to the choice of the document and the task id.\<close>

definition find_doc ::
  "'st mp_rester \<Rightarrow> string \<Rightarrow> bool \<Rightarrow> py_error + 'st search_doc \<times> string" where
  "find_doc mpr material_id_or_task_id use_task_id =
     (if use_task_id
      then (case tasks_search mpr material_id_or_task_id of
              Inl e \<Rightarrow> Inl e
            | Inr docs \<Rightarrow>
                (case index_first docs of
                   Inl e \<Rightarrow> Inl e
                 | Inr doc \<Rightarrow> Inr (doc, material_id_or_task_id)))
      else (case materials_search mpr material_id_or_task_id of
              Inl e \<Rightarrow> Inl e
            | Inr docs \<Rightarrow>
                (case index_first docs of
                   Inl e \<Rightarrow> Inl e
                 | Inr doc \<Rightarrow>
                     (case dict_get (origins_dict (doc_origins doc)) ''structure'' of
                        Inl e \<Rightarrow> Inl e
                      | Inr prop \<Rightarrow> Inr (doc, task_id prop)))))"

text \<open>
  The job. Its second argument is the outcome of \<open>from mp_api.client import MPRester\<close>
  followed by \<open>MPRester()\<close>: \<open>None\<close> when the package cannot be imported, otherwise the
  client or the exception its construction raised.
\<close>

definition retrieve_structure_from_materials_project ::
  "'st pymatgen \<Rightarrow> (py_error + 'st mp_rester) option \<Rightarrow> string \<Rightarrow> bool \<Rightarrow> bool
     \<Rightarrow> py_error + ('st, unit) response" where
  "retrieve_structure_from_materials_project lib mp_api material_id_or_task_id use_task_id
       reset_magnetic_moments =
     (case mp_api of
        None \<Rightarrow> Inl ImportError
      | Some (Inl e) \<Rightarrow> Inl e
      | Some (Inr mpr) \<Rightarrow>
          (case find_doc mpr material_id_or_task_id use_task_id of
             Inl e \<Rightarrow> Inl e
           | Inr (doc, tid) \<Rightarrow>
               (case get_database_version mpr of
                  Inl e \<Rightarrow> Inl e
                | Inr database_version \<Rightarrow>
                    (let structure = doc_structure doc;
                         structure =
                           (if reset_magnetic_moments
                               \<and> ''magmom'' \<in> set (site_properties lib structure)
                            then remove_site_property lib structure ''magmom''
                            else structure)
                     in Inr \<lparr>response_output = structure, response_replace = None,
                             response_stored_data =
                               Some [(''task_id'', tid),
                                     (''database_version'', database_version)]\<rparr>))))"

text \<open>The task id the job stores when it looks a material up: that of the last origin
  named \<open>structure\<close>.\<close>

definition structure_origins :: "'st search_doc \<Rightarrow> origin list" where
  "structure_origins doc = filter (\<lambda>prop. origin_name prop = ''structure'') (doc_origins doc)"

text \<open>A sample structure type with its species and its site properties as an association
  list, and a sample client that knows the material \<open>mp-149\<close> and the task \<open>mp-1\<close>.\<close>

record sample_structure =
  st_species :: "string list"
  st_properties :: "(string \<times> string list) list"

definition sample_pymatgen :: "sample_structure pymatgen" where
  "sample_pymatgen =
     \<lparr>site_properties = (\<lambda>s. map fst (st_properties s)),
      remove_site_property = (\<lambda>s property_name.
         s\<lparr>st_properties := AList.delete property_name (st_properties s)\<rparr>)\<rparr>"

definition silicon :: sample_structure where
  "silicon = \<lparr>st_species = [''Si'', ''Si''],
              st_properties = [(''magmom'', [''0.0'', ''0.0'']), (''charge'', [''0'', ''0''])]\<rparr>"

definition sample_rester :: "sample_structure mp_rester" where
  "sample_rester =
     \<lparr>tasks_search =
        (\<lambda>i. if i = ''mp-1''
              then Inr [\<lparr>doc_structure = silicon, doc_origins = []\<rparr>]
              else Inr []),
      materials_search =
        (\<lambda>i. if i = ''mp-149''
              then Inr [\<lparr>doc_structure = silicon,
                         doc_origins = [\<lparr>origin_name = ''structure'', task_id = ''mp-1''\<rparr>,
                                        \<lparr>origin_name = ''energy'', task_id = ''mp-2''\<rparr>]\<rparr>]
              else Inr []),
      get_database_version = Inr ''2024.1''\<rparr>"

section \<open>Jobs, flows and makers\<close>

text \<open>
  What the flow makers use of jobflow. Every job gets a fresh uuid when it is created:
  the uuid is a counter of the world. The output of a job is a reference to it; reading
  an attribute of a reference gives a reference with the attribute appended. A function
  argument is a value or such a reference. A flow holds its jobs (jobs and flows), its
  designated output and its name. The constructor \<open>Flow\<close> refuses a job that already
  belongs to a flow; the jobs it is given here have just been made, and the constructor
  is taken to accept them.
\<close>

type_synonym uuid = nat

datatype output_ref = OutputReference uuid "string list"

fun ref_getattr :: "output_ref \<Rightarrow> string \<Rightarrow> output_ref" where
  "ref_getattr (OutputReference u attributes) a = OutputReference u (attributes @ [a])"

fun ref_uuid :: "output_ref \<Rightarrow> uuid" where
  "ref_uuid (OutputReference u attributes) = u"

datatype 'a arg = Value 'a | Reference output_ref

datatype 's info_value = Structure_value 's | Other_value string

text \<open>A field such as \<open>clean_files\<close> holds \<open>None\<close>, a tuple or a list of file names.\<close>

datatype py_seq = PyNone | PyTuple "string list" | PyList "string list"

fun truthy :: "py_seq \<Rightarrow> bool" where
  "truthy PyNone = False"
| "truthy (PyTuple xs) = (xs \<noteq> [])"
| "truthy (PyList xs) = (xs \<noteq> [])"

fun items :: "py_seq \<Rightarrow> string list" where
  "items PyNone = []"
| "items (PyTuple xs) = xs"
| "items (PyList xs) = xs"

text \<open>What a job holds: the call of a calculation maker with its structure and previous
  directory, or the call of \<open>remove_workflow_files\<close> with its three arguments.\<close>

datatype 's job_args =
    Calculation "'s arg" "string arg option"
  | Remove_workflow_files "output_ref list" py_seq bool

record 's job =
  job_uuid :: uuid
  job_name :: string
  job_args :: "'s job_args"
  write_additional_data :: "(string \<times> (string \<times> 's info_value) list) list"

datatype ('s, 'o) node = Job "'s job" | Flow "('s, 'o) node list" 'o string

fun node_output :: "('s, output_ref) node \<Rightarrow> output_ref" where
  "node_output (Job j) = OutputReference (job_uuid j) []"
| "node_output (Flow jobs out nm) = out"

fun flow_jobs :: "('s, 'o) node \<Rightarrow> ('s, 'o) node list" where
  "flow_jobs (Flow jobs out nm) = jobs"
| "flow_jobs (Job j) = []"

text \<open>
  The world a \<open>make\<close> call runs in: the uuid counter, and the record of the \<open>make\<close>
  calls made so far (maker name, structure, previous directory), kept so that the order
  of the calls can be stated.
\<close>

record 's world =
  uuid_counter :: nat
  make_calls :: "(string \<times> 's arg \<times> string arg option) list"

text \<open>
  A maker of the libraries around the flow makers: its name and what its \<open>make\<close>
  builds from a structure, a previous directory and the uuid counter. Building a job or
  a flow runs no calculation, and \<open>make\<close> is taken to return. A maker is a dataclass
  with neither \<open>__bool__\<close> nor \<open>__len__\<close>, so the test \<open>if self.static_maker\<close> of the
  flow makers is the test that the field is not \<open>None\<close>.
\<close>

record 's maker =
  maker_name :: string
  make_fn :: "'s arg \<Rightarrow> string arg option \<Rightarrow> nat \<Rightarrow> ('s, output_ref) node \<times> nat"

definition maker_make ::
  "'s maker \<Rightarrow> 's arg \<Rightarrow> string arg option \<Rightarrow> 's world
     \<Rightarrow> ('s, output_ref) node \<times> 's world" where
  "maker_make m structure prev_dir w =
     (let (made, c) = make_fn m structure prev_dir (uuid_counter w)
      in (made, \<lparr>uuid_counter = c,
                 make_calls = make_calls w @ [(maker_name m, structure, prev_dir)]\<rparr>))"

section \<open>atomate2.vasp.flows.mp\<close>

record 's MPGGADoubleRelaxStaticMaker =
  gga_name :: string
  gga_relax_maker :: "'s maker"
  gga_static_maker :: "'s maker option"

definition MPGGADoubleRelaxStaticMaker_make ::
  "'s MPGGADoubleRelaxStaticMaker \<Rightarrow> 's arg \<Rightarrow> string arg option \<Rightarrow> 's world
     \<Rightarrow> ('s, output_ref) node \<times> 's world" where
  "MPGGADoubleRelaxStaticMaker_make self structure prev_dir w =
     (let (relax_flow, w1) = maker_make (gga_relax_maker self) structure prev_dir w;
          out = node_output relax_flow;
          jobs = [relax_flow]
      in case gga_static_maker self of
           None \<Rightarrow> (Flow jobs out (gga_name self), w1)
         | Some sm \<Rightarrow>
             (let (static_job, w2) =
                    maker_make sm (Reference (ref_getattr out ''structure''))
                      (Some (Reference (ref_getattr out ''dir_name''))) w1;
                  out = node_output static_job;
                  jobs = jobs @ [static_job]
              in (Flow jobs out (gga_name self), w2)))"

text \<open>The meta-GGA maker is a dataclass of its own (it also inherits the two fields of
  the double relaxation maker, which \<open>make\<close> never reads) with the same body.\<close>

record 's MPMetaGGADoubleRelaxStaticMaker =
  meta_name :: string
  meta_relax_maker1 :: "'s maker option"
  meta_relax_maker2 :: "'s maker"
  meta_relax_maker :: "'s maker"
  meta_static_maker :: "'s maker option"

definition MPMetaGGADoubleRelaxStaticMaker_make ::
  "'s MPMetaGGADoubleRelaxStaticMaker \<Rightarrow> 's arg \<Rightarrow> string arg option \<Rightarrow> 's world
     \<Rightarrow> ('s, output_ref) node \<times> 's world" where
  "MPMetaGGADoubleRelaxStaticMaker_make self structure prev_dir w =
     (let (relax_flow, w1) = maker_make (meta_relax_maker self) structure prev_dir w;
          out = node_output relax_flow;
          jobs = [relax_flow]
      in case meta_static_maker self of
           None \<Rightarrow> (Flow jobs out (meta_name self), w1)
         | Some sm \<Rightarrow>
             (let (static_job, w2) =
                    maker_make sm (Reference (ref_getattr out ''structure''))
                      (Some (Reference (ref_getattr out ''dir_name''))) w1;
                  out = node_output static_job;
                  jobs = jobs @ [static_job]
              in (Flow jobs out (meta_name self), w2)))"

text \<open>The jobs of a list of jobs and flows, those of a flow in the place of the flow.\<close>

fun all_jobs :: "('s, 'o) node list \<Rightarrow> 's job list" where
  "all_jobs [] = []"
| "all_jobs (Flow sub_jobs out nm # jobs) = all_jobs sub_jobs @ all_jobs jobs"
| "all_jobs (Job j # jobs) = j # all_jobs jobs"

text \<open>
  Modelled from the spec: \<open>_recursive_get_dir_names\<close> of \<open>atomate2.common.utils\<close>,
  which is not among the sources. It gathers the directory names of the jobs
  recursively: a flow contributes those of its own jobs, a job contributes the
  \<open>dir_name\<close> of its output. The source appends to the list it is given; here the
  extended list is returned.
\<close>

fun recursive_get_dir_names ::
  "('s, output_ref) node list \<Rightarrow> output_ref list \<Rightarrow> output_ref list" where
  "recursive_get_dir_names [] dir_names = dir_names"
| "recursive_get_dir_names (Flow sub_jobs out nm # jobs) dir_names =
     recursive_get_dir_names jobs (recursive_get_dir_names sub_jobs dir_names)"
| "recursive_get_dir_names (Job j # jobs) dir_names =
     recursive_get_dir_names jobs
       (dir_names @ [ref_getattr (node_output (Job j)) ''dir_name''])"

record 's MP24DoubleRelaxStaticMaker =
  mp24_name :: string
  mp24_relax_maker :: "'s maker"
  mp24_static_maker :: "'s maker"
  clean_files :: py_seq

text \<open>Calling the job function \<open>remove_workflow_files\<close> while a flow is built creates
  a job with a fresh uuid that holds the arguments.\<close>

definition remove_workflow_files_job ::
  "output_ref list \<Rightarrow> py_seq \<Rightarrow> bool \<Rightarrow> 's world \<Rightarrow> 's job \<times> 's world" where
  "remove_workflow_files_job directories file_names allow_zpath w =
     (\<lparr>job_uuid = uuid_counter w, job_name = ''remove_workflow_files'',
       job_args = Remove_workflow_files directories file_names allow_zpath,
       write_additional_data = []\<rparr>,
      w\<lparr>uuid_counter := Suc (uuid_counter w)\<rparr>)"

text \<open>\<open>MP24DoubleRelaxStaticMaker.make\<close> returns the flow, the maker as the call
  leaves it, and the world.\<close>

definition MP24DoubleRelaxStaticMaker_make ::
  "'s MP24DoubleRelaxStaticMaker \<Rightarrow> 's arg \<Rightarrow> string arg option \<Rightarrow> 's world
     \<Rightarrow> ('s, output_ref) node \<times> 's MP24DoubleRelaxStaticMaker \<times> 's world" where
  "MP24DoubleRelaxStaticMaker_make self structure prev_dir w =
     (let (relax_flow, w1) = maker_make (mp24_relax_maker self) structure prev_dir w;
          (static_job, w2) =
             maker_make (mp24_static_maker self)
               (Reference (ref_getattr (node_output relax_flow) ''structure''))
               (Some (Reference (ref_getattr (node_output relax_flow) ''dir_name''))) w1;
          jobs = [relax_flow, static_job];
          self = self\<lparr>clean_files :=
                   (if truthy (clean_files self) then clean_files self else PyList [])\<rparr>
      in if length (items (clean_files self)) > 0
         then (let directories = recursive_get_dir_names jobs [];
                   (cleanup, w3) =
                      remove_workflow_files_job directories (clean_files self) True w2;
                   jobs = jobs @ [Job cleanup]
               in (Flow jobs (node_output static_job) (mp24_name self), self, w3))
         else (Flow jobs (node_output static_job) (mp24_name self), self, w2))"

text \<open>
  Sample makers for running the flow makers on concrete inputs: a relaxation maker whose
  \<open>make\<close> builds a flow of two jobs, the second fed by the first, and a static maker
  whose \<open>make\<close> builds one job.
\<close>

definition sample_relax_maker :: "string maker" where
  "sample_relax_maker =
     \<lparr>maker_name = ''double relax'',
      make_fn = (\<lambda>structure prev_dir c.
        (Flow [Job \<lparr>job_uuid = c, job_name = ''relax 1'',
                    job_args = Calculation structure prev_dir, write_additional_data = []\<rparr>,
               Job \<lparr>job_uuid = Suc c, job_name = ''relax 2'',
                    job_args = Calculation (Reference (OutputReference c [''structure'']))
                                 (Some (Reference (OutputReference c [''dir_name'']))),
                    write_additional_data = []\<rparr>]
           (OutputReference (Suc c) []) ''double relax'',
         Suc (Suc c)))\<rparr>"

definition sample_static_maker :: "string maker" where
  "sample_static_maker =
     \<lparr>maker_name = ''static'',
      make_fn = (\<lambda>structure prev_dir c.
        (Job \<lparr>job_uuid = c, job_name = ''static'',
              job_args = Calculation structure prev_dir, write_additional_data = []\<rparr>,
         Suc c))\<rparr>"

definition sample_world :: "string world" where
  "sample_world = \<lparr>uuid_counter = 7, make_calls = []\<rparr>"

section \<open>atomate2.vasp.jobs.defect\<close>

text \<open>
  Modelled from the spec: \<open>StaticMaker\<close> of \<open>atomate2.vasp.jobs.core\<close>, which is not
  among the sources, is a maker whose \<open>make\<close> builds a job from its input parameters.
  The job is created with a fresh uuid and holds the maker's name, the arguments of the
  call and the maker's \<open>write_additional_data\<close>.
\<close>

record 's static_job_maker =
  sm_name :: string
  sm_write_additional_data :: "(string \<times> (string \<times> 's info_value) list) list"

definition static_maker_make ::
  "'s static_job_maker \<Rightarrow> 's arg \<Rightarrow> string arg option \<Rightarrow> 's world \<Rightarrow> 's job \<times> 's world" where
  "static_maker_make m structure prev_dir w =
     (\<lparr>job_uuid = uuid_counter w, job_name = sm_name m,
       job_args = Calculation structure prev_dir,
       write_additional_data = sm_write_additional_data m\<rparr>,
      \<lparr>uuid_counter = Suc (uuid_counter w),
       make_calls = make_calls w @ [(sm_name m, structure, prev_dir)]\<rparr>)"

text \<open>\<open>str(i)\<close> for the loop index.\<close>

fun str_of_nat :: "nat \<Rightarrow> string" where
  "str_of_nat n =
     (if n < 10 then [char_of (48 + n)]
      else str_of_nat (n div 10) @ [char_of (48 + n mod 10)])"

text \<open>\<open>info.update(add_info)\<close> on dictionaries kept as association lists.\<close>

definition dict_update :: "('k \<times> 'v) list \<Rightarrow> ('k \<times> 'v) list \<Rightarrow> ('k \<times> 'v) list" where
  "dict_update d new = fold (\<lambda>(k, v). AList.update k v) new d"

record ccd_output =
  ccd_structure :: output_ref
  ccd_energy :: output_ref
  ccd_dir_name :: output_ref
  ccd_uuid :: uuid

text \<open>The loop \<open>for i, d_struct in enumerate(distorted_structures)\<close>, on the lists
  \<open>jobs\<close> and \<open>outputs\<close> and the world.\<close>

fun spawn_loop ::
  "'s \<Rightarrow> 's \<Rightarrow> 's static_job_maker \<Rightarrow> string arg option \<Rightarrow> string
     \<Rightarrow> (string \<times> 's info_value) list option \<Rightarrow> nat \<Rightarrow> 's list
     \<Rightarrow> 's job list \<times> ccd_output list \<times> 's world
     \<Rightarrow> 's job list \<times> ccd_output list \<times> 's world" where
  "spawn_loop relaxed_structure distorted_structure static_maker prev_vasp_dir add_name
       add_info i [] st = st"
| "spawn_loop relaxed_structure distorted_structure static_maker prev_vasp_dir add_name
       add_info i (d_struct # rest) st =
     (let jobs = fst st; outputs = fst (snd st); w = snd (snd st);
          (static_job, w') = static_maker_make static_maker (Value d_struct) prev_vasp_dir w;
          suffix = (if add_name = [] then '' '' @ str_of_nat i
                    else '' '' @ add_name @ '' '' @ str_of_nat i);
          info = [(''relaxed_structure'', Structure_value relaxed_structure),
                  (''distorted_structure'', Structure_value distorted_structure)];
          info = (case add_info of None \<Rightarrow> info | Some extra \<Rightarrow> dict_update info extra);
          static_job = static_job\<lparr>write_additional_data :=
                         AList.update ''info:json'' info (write_additional_data static_job)\<rparr>;
          static_job = static_job\<lparr>job_name := job_name static_job @ suffix\<rparr>;
          task_doc = OutputReference (job_uuid static_job) []
      in spawn_loop relaxed_structure distorted_structure static_maker prev_vasp_dir
           add_name add_info (Suc i) rest
           (jobs @ [static_job],
            outputs @ [\<lparr>ccd_structure =
                          ref_getattr (ref_getattr task_doc ''output'') ''structure'',
                        ccd_energy = ref_getattr (ref_getattr task_doc ''output'') ''energy'',
                        ccd_dir_name = ref_getattr task_doc ''dir_name'',
                        ccd_uuid = ref_uuid task_doc\<rparr>],
            w'))"

text \<open>\<open>spawn_energy_curve_calcs\<close>; \<open>Structure.interpolate\<close> is pymatgen's and a
  parameter. The first \<open>make\<close> call is made and its job is bound to no name.\<close>

definition spawn_energy_curve_calcs ::
  "('s \<Rightarrow> 's \<Rightarrow> 'r list \<Rightarrow> 's list) \<Rightarrow> 's \<Rightarrow> 's \<Rightarrow> ('r :: linorder) list
     \<Rightarrow> 's static_job_maker \<Rightarrow> string arg option \<Rightarrow> string
     \<Rightarrow> (string \<times> 's info_value) list option \<Rightarrow> 's world
     \<Rightarrow> (ccd_output list, ('s, ccd_output list) node) response \<times> 's world" where
  "spawn_energy_curve_calcs interpolate relaxed_structure distorted_structure distortions
       static_maker prev_vasp_dir add_name add_info w =
     (let (reference_job, w0) = static_maker_make static_maker (Value relaxed_structure) None w;
          distorted_structures =
            interpolate relaxed_structure distorted_structure (sort distortions);
          (jobs, outputs, w1) =
            spawn_loop relaxed_structure distorted_structure static_maker prev_vasp_dir
              add_name add_info 0 distorted_structures ([], [], w0);
          add_flow = Flow (map Job jobs) outputs ''Flow''
      in (\<lparr>response_output = outputs, response_replace = Some add_flow, response_stored_data = None\<rparr>, w1))"

text \<open>A sample static maker and a sample interpolation, which answers one structure for
  each distortion.\<close>

definition sample_static_job_maker :: "string static_job_maker" where
  "sample_static_job_maker = \<lparr>sm_name = ''static'', sm_write_additional_data = []\<rparr>"

definition sample_interpolate :: "string \<Rightarrow> string \<Rightarrow> nat list \<Rightarrow> string list" where
  "sample_interpolate relaxed distorted nimages =
     map (\<lambda>n. relaxed @ ''->'' @ distorted @ '' '' @ str_of_nat n) nimages"

section \<open>Splitting on the colon\<close>

lemma split_str_nonempty: "split_str sep s \<noteq> []"
  by (induction s) (auto split: list.splits)

lemma split_str_no_sep: "sep \<notin> set s \<Longrightarrow> split_str sep s = [s]"
  by (induction s) auto

lemma split_str_single: "split_str sep s = [p] \<Longrightarrow> sep \<notin> set s"
  using split_str_nonempty [of sep]
  by (induction s arbitrary: p) (auto split: if_splits list.splits)

lemma last_split_str:
  "last (split_str sep s) = rev (takeWhile (\<lambda>c. c \<noteq> sep) (rev s))"
proof (induction s)
  case Nil
  then show ?case by simp
next
  case (Cons c cs)
  show ?case
  proof (cases "sep \<in> set cs")
    case True
    then have two: "\<exists>p q qs. split_str sep cs = p # q # qs"
      using split_str_single [of sep cs] split_str_nonempty [of sep cs]
      by (cases "split_str sep cs"; cases "tl (split_str sep cs)") auto
    have "last (split_str sep (c # cs)) = last (split_str sep cs)"
      using two by (auto split: list.splits)
    moreover have "takeWhile (\<lambda>c. c \<noteq> sep) (rev cs @ [c]) = takeWhile (\<lambda>c. c \<noteq> sep) (rev cs)"
      using True by (auto simp: takeWhile_append)
    ultimately show ?thesis using Cons.IH by simp
  next
    case False
    then show ?thesis
      by (cases "c = sep") (simp_all add: split_str_no_sep takeWhile_append)
  qed
qed

lemma split_colon_last_eq: "split_colon_last d = Inr (text_after_last_colon d)"
  by (simp add: split_colon_last_def index_last_def split_str_nonempty last_split_str
      text_after_last_colon_def)

lemma abs_paths_of_eq:
  "abs_paths_of env ds = Inr (map (\<lambda>d. abspath env (text_after_last_colon d)) ds)"
  by (induction ds) (simp_all add: split_colon_last_eq)

lemma rev_takeWhile_rev_all:
  assumes "sep \<notin> set d"
  shows "rev (takeWhile (\<lambda>c. c \<noteq> sep) (rev d)) = d"
proof -
  have "takeWhile (\<lambda>c. c \<noteq> sep) (rev d) = rev d"
    using assms by (intro takeWhile_eq_all_conv [THEN iffD2]) auto
  then show ?thesis by (simp only: rev_rev_ident)
qed

lemma text_after_last_colon_plain:
  "CHR '':'' \<notin> set d \<Longrightarrow> text_after_last_colon d = d"
  unfolding text_after_last_colon_def by (rule rev_takeWhile_rev_all)

lemma text_after_last_colon_host:
  assumes "CHR '':'' \<notin> set p"
  shows "text_after_last_colon (host @ '':'' @ p) = p"
proof -
  have "takeWhile (\<lambda>c. c \<noteq> CHR '':'') (rev p @ CHR '':'' # rev host) = rev p"
    using assms by (subst takeWhile_append2) auto
  then show ?thesis by (simp add: text_after_last_colon_def)
qed

lemma text_after_last_colon_no_colon: "CHR '':'' \<notin> set (text_after_last_colon d)"
  unfolding text_after_last_colon_def
  by (metis (mono_tags, lifting) set_rev set_takeWhileD)


section \<open>The loops of remove\_workflow\_files\<close>

lemma os_stat_unlink:
  "os_stat n (fs(e := None)) x = Some (File c) \<Longrightarrow> os_stat n fs x = Some (File c)"
proof (induction n arbitrary: x)
  case 0
  then show ?case by simp
next
  case (Suc n)
  show ?case
  proof (cases "x = e")
    case True
    with Suc.prems show ?thesis by simp
  next
    case False
    with Suc.prems Suc.IH show ?thesis
      by (auto split: option.splits fs_node.splits)
  qed
qed

lemma isfile_unlink_mono:
  "os_path_isfile env (fs(e := None)) p \<Longrightarrow> os_path_isfile env fs p"
  unfolding os_path_isfile_def
  by (auto split: option.splits fs_node.splits dest: os_stat_unlink simp del: os_stat.simps)

lemma isfile_unlinked: "\<not> os_path_isfile env (fs(entry env p := None)) p"
  by (simp add: os_path_isfile_def)


lemma isfile_dir: "fs (entry env p) = Some Dir \<Longrightarrow> \<not> os_path_isfile env fs p"
  by (simp add: os_path_isfile_def)

lemma os_remove_isfile:
  "os_path_isfile env fs p \<Longrightarrow>
   os_remove env fs p =
     (case unlink_error env (entry env p) of
        Some e \<Rightarrow> Inl e
      | None \<Rightarrow> Inr (fs(entry env p := None)))"
  by (auto simp: os_path_isfile_def os_remove_def Let_def split: option.splits fs_node.splits)

lemma remove_in_dir_flat:
  "remove_in_dir env z d fns st = run_checks env z (map (Pair d) fns) st"
proof (induction fns arbitrary: st)
  case Nil
  then show ?case by simp
next
  case (Cons f fns)
  have cp: "(if z then zpath env (snd st) (join env d f) else join env d f)
            = checked_path env z (snd st) (d, f)"
    by (simp add: checked_path_def)
  show ?case
    by (simp only: remove_in_dir.simps run_checks.simps Let_def cp list.map)
       (simp add: os_remove_isfile Cons.IH split: option.splits del: fun_upd_apply)
qed

lemma run_checks_append:
  "run_checks env z (xs @ ys) st =
     (case run_checks env z xs st of
        (Inl e, s) \<Rightarrow> (Inl e, s)
      | (Inr acc, s) \<Rightarrow> run_checks env z ys (acc, s))"
  by (induction xs arbitrary: st) (simp_all add: Let_def split: option.splits del: fun_upd_apply)

lemma remove_in_dirs_flat:
  "remove_in_dirs env z ds fns st = run_checks env z (List.product ds fns) st"
proof (induction ds arbitrary: st)
  case Nil
  then show ?case by simp
next
  case (Cons d ds)
  show ?case
    by (simp add: remove_in_dir_flat run_checks_append Cons.IH split: prod.splits sum.splits)
qed

lemma remove_workflow_files_flat:
  "remove_workflow_files env directories file_names z fs =
     run_checks env z (checks env directories file_names) ([], fs)"
  by (simp add: remove_workflow_files_def abs_paths_of_eq remove_in_dirs_flat checks_def)

lemma fs_after_append:
  "fs_after env z (xs @ ys) fs = fs_after env z ys (fs_after env z xs fs)"
  by (induction xs arbitrary: fs) simp_all

lemma fs_at_0: "fs_at env z cs fs 0 = fs"
  by (simp add: fs_at_def)

lemma fs_at_Cons: "fs_at env z (c # cs) fs (Suc k) = fs_at env z cs (check_step env z fs c) k"
  by (simp add: fs_at_def)

lemma path_at_0: "path_at env z (c # cs) fs 0 = checked_path env z fs c"
  by (simp add: path_at_def fs_at_0)

lemma path_at_Cons: "path_at env z (c # cs) fs (Suc k) = path_at env z cs (check_step env z fs c) k"
  by (simp add: path_at_def fs_at_Cons)

lemma removed_at_Cons:
  "removed_at env z (c # cs) fs (Suc k) = removed_at env z cs (check_step env z fs c) k"
  by (simp add: removed_at_def fs_at_Cons path_at_Cons)

lemma refused_at_Cons:
  "refused_at env z (c # cs) fs (Suc k) = refused_at env z cs (check_step env z fs c) k"
  by (simp add: refused_at_def fs_at_Cons path_at_Cons)

lemma refused_at_0:
  "refused_at env z (c # cs) fs 0 \<longleftrightarrow>
     os_path_isfile env fs (checked_path env z fs c)
     \<and> unlink_error env (entry env (checked_path env z fs c)) \<noteq> None"
  by (simp add: refused_at_def fs_at_0 path_at_0)

lemma removed_at_0:
  "removed_at env z (c # cs) fs 0 =
     (if os_path_isfile env fs (checked_path env z fs c) then [checked_path env z fs c] else [])"
  by (simp add: removed_at_def fs_at_0 path_at_0)

lemma upt_Suc_shift: "map f [0..<Suc n] = f 0 # map (\<lambda>k. f (Suc k)) [0..<n]"
  by (simp only: upt_conv_Cons [of 0 "Suc n"] list.map map_Suc_upt [symmetric] map_map o_def)

lemma run_checks_ok:
  "(\<forall>k<length cs. \<not> refused_at env z cs fs k) \<Longrightarrow>
   run_checks env z cs (acc, fs) =
     (Inr (acc @ concat (map (removed_at env z cs fs) [0..<length cs])), fs_after env z cs fs)"
proof (induction cs arbitrary: acc fs)
  case Nil
  then show ?case by simp
next
  case (Cons c cs)
  let ?p = "checked_path env z fs c"
  have r0: "\<not> refused_at env z (c # cs) fs 0" using Cons.prems by auto
  have rest: "\<forall>k<length cs. \<not> refused_at env z cs (check_step env z fs c) k"
    using Cons.prems by (auto simp: refused_at_Cons [symmetric])
  have shift: "concat (map (removed_at env z (c # cs) fs) [0..<length (c # cs)]) =
        removed_at env z (c # cs) fs 0
        @ concat (map (removed_at env z cs (check_step env z fs c)) [0..<length cs])"
  proof -
    have "map (removed_at env z (c # cs) fs) [0..<length (c # cs)] =
          map (removed_at env z (c # cs) fs) [0..<Suc (length cs)]"
      by simp
    also have "\<dots> = removed_at env z (c # cs) fs 0
          # map (\<lambda>k. removed_at env z (c # cs) fs (Suc k)) [0..<length cs]"
      by (rule upt_Suc_shift)
    finally show ?thesis by (simp only: removed_at_Cons concat.simps)
  qed
  show ?case
  proof (cases "os_path_isfile env fs ?p")
    case True
    then have ok: "unlink_error env (entry env ?p) = None"
      using r0 by (simp add: refused_at_0)
    have step: "check_step env z fs c = fs(entry env ?p := None)"
      using True ok by (simp add: check_step_def)
    show ?thesis
      unfolding shift
      using True ok Cons.IH [OF rest, of "acc @ [?p]"]
      by (simp add: removed_at_0 step Let_def del: fun_upd_apply)
  next
    case False
    then have step: "check_step env z fs c = fs"
      by (simp add: check_step_def)
    show ?thesis
      unfolding shift
      using False Cons.IH [OF rest, of acc]
      by (simp add: removed_at_0 step Let_def del: fun_upd_apply)
  qed
qed

lemma run_checks_refused:
  "k < length cs \<Longrightarrow> refused_at env z cs fs k \<Longrightarrow> (\<forall>j<k. \<not> refused_at env z cs fs j) \<Longrightarrow>
   unlink_error env (entry env (path_at env z cs fs k)) = Some e \<Longrightarrow>
   run_checks env z cs (acc, fs) = (Inl e, fs_at env z cs fs k)"
proof (induction cs arbitrary: acc fs k)
  case Nil
  then show ?case by simp
next
  case (Cons c cs)
  let ?p = "checked_path env z fs c"
  show ?case
  proof (cases k)
    case 0
    then show ?thesis
      using Cons.prems by (simp add: refused_at_0 path_at_0 fs_at_0 Let_def)
  next
    case (Suc k')
    have r0: "\<not> refused_at env z (c # cs) fs 0" using Cons.prems(3) Suc by blast
    have k': "k' < length cs" using Cons.prems(1) Suc by simp
    have rk: "refused_at env z cs (check_step env z fs c) k'"
      using Cons.prems(2) Suc by (simp add: refused_at_Cons)
    have before: "\<forall>j<k'. \<not> refused_at env z cs (check_step env z fs c) j"
      using Cons.prems(3) Suc by (auto simp: refused_at_Cons [symmetric])
    have err: "unlink_error env (entry env (path_at env z cs (check_step env z fs c) k')) = Some e"
      using Cons.prems(4) Suc by (simp add: path_at_Cons)
    note IH = Cons.IH [OF k' rk before err]
    show ?thesis
    proof (cases "os_path_isfile env fs ?p")
      case True
      then have ok: "unlink_error env (entry env ?p) = None"
        using r0 by (simp add: refused_at_0)
      have step: "check_step env z fs c = fs(entry env ?p := None)"
        using True ok by (simp add: check_step_def)
      show ?thesis
        using True ok IH [of "acc @ [?p]"]
        by (simp add: Suc fs_at_Cons step Let_def del: fun_upd_apply)
    next
      case False
      then have step: "check_step env z fs c = fs"
        by (simp add: check_step_def)
      show ?thesis
        using False IH [of acc]
        by (simp add: Suc fs_at_Cons step Let_def del: fun_upd_apply)
    qed
  qed
qed

lemma check_step_cases:
  "check_step env z fs c = fs \<or>
   (os_path_isfile env fs (checked_path env z fs c)
    \<and> unlink_error env (entry env (checked_path env z fs c)) = None
    \<and> check_step env z fs c = fs(entry env (checked_path env z fs c) := None))"
  by (simp add: check_step_def Let_def)

lemma check_step_none: "fs e = None \<Longrightarrow> check_step env z fs c e = None"
  by (simp add: check_step_def Let_def)

lemma fs_after_none: "fs e = None \<Longrightarrow> fs_after env z cs fs e = None"
  by (induction cs arbitrary: fs) (simp_all add: check_step_none)

lemma isfile_check_step_mono:
  "os_path_isfile env (check_step env z fs c) p \<Longrightarrow> os_path_isfile env fs p"
  using check_step_cases [of env z fs c] by (auto dest: isfile_unlink_mono)

lemma isfile_fs_after_mono:
  "os_path_isfile env (fs_after env z cs fs) p \<Longrightarrow> os_path_isfile env fs p"
  by (induction cs arbitrary: fs) (auto dest: isfile_check_step_mono)

lemma fs_at_Suc:
  "k < length cs \<Longrightarrow>
   fs_at env z cs fs (Suc k) = check_step env z (fs_at env z cs fs k) (cs ! k)"
  by (simp add: fs_at_def take_Suc_conv_app_nth fs_after_append)


lemma fs_at_take:
  "k \<le> m \<Longrightarrow> fs_at env z (take m cs) fs k = fs_at env z cs fs k"
  by (simp add: fs_at_def min_def)

lemma path_at_take:
  "k < m \<Longrightarrow> path_at env z (take m cs) fs k = path_at env z cs fs k"
  by (simp add: path_at_def fs_at_take)

lemma isfile_fs_at_mono:
  "os_path_isfile env (fs_at env z cs fs k) p \<Longrightarrow> os_path_isfile env fs p"
  unfolding fs_at_def by (rule isfile_fs_after_mono)

lemma fs_after_changed:
  "fs_after env z cs fs e \<noteq> fs e \<Longrightarrow>
   fs_after env z cs fs e = None
   \<and> (\<exists>k<length cs. e = entry env (path_at env z cs fs k)
        \<and> os_path_isfile env (fs_at env z cs fs k) (path_at env z cs fs k)
        \<and> unlink_error env e = None)"
proof (induction cs arbitrary: fs)
  case Nil
  then show ?case by simp
next
  case (Cons c cs)
  let ?s = "check_step env z fs c"
  show ?case
  proof (cases "fs_after env z cs ?s e = ?s e")
    case True
    with Cons.prems have ne: "?s e \<noteq> fs e" by simp
    then have st: "os_path_isfile env fs (checked_path env z fs c)"
      "unlink_error env (entry env (checked_path env z fs c)) = None"
      "?s = fs(entry env (checked_path env z fs c) := None)"
      using check_step_cases [of env z fs c] by auto
    have e: "e = entry env (checked_path env z fs c)"
      using ne st(3) by (auto split: if_splits)
    have "?s e = None" using st(3) e by simp
    then have "fs_after env z (c # cs) fs e = None" using True by simp
    moreover have "e = entry env (path_at env z (c # cs) fs 0)
        \<and> os_path_isfile env (fs_at env z (c # cs) fs 0) (path_at env z (c # cs) fs 0)
        \<and> unlink_error env e = None"
      using e st by (simp add: path_at_0 fs_at_0)
    ultimately show ?thesis by (intro conjI exI [of _ 0]) auto
  next
    case False
    from Cons.IH [OF False] obtain k where k: "k < length cs"
      and n: "fs_after env z cs ?s e = None"
      and ek: "e = entry env (path_at env z cs ?s k)"
      and fk: "os_path_isfile env (fs_at env z cs ?s k) (path_at env z cs ?s k)"
      and uk: "unlink_error env e = None"
      by blast
    have "Suc k < length (c # cs)" using k by simp
    moreover have "e = entry env (path_at env z (c # cs) fs (Suc k))"
      using ek by (simp add: path_at_Cons)
    moreover have "os_path_isfile env (fs_at env z (c # cs) fs (Suc k)) (path_at env z (c # cs) fs (Suc k))"
      using fk by (simp add: path_at_Cons fs_at_Cons)
    ultimately show ?thesis using n uk by (intro conjI exI [of _ "Suc k"]) auto
  qed
qed

lemma fs_after_dir: "fs e = Some Dir \<Longrightarrow> fs_after env z cs fs e = Some Dir"
proof (rule ccontr)
  assume d: "fs e = Some Dir" and "fs_after env z cs fs e \<noteq> Some Dir"
  then have "fs_after env z cs fs e \<noteq> fs e" by simp
  from fs_after_changed [OF this] obtain k where
    ek: "e = entry env (path_at env z cs fs k)"
    and fk: "os_path_isfile env (fs_at env z cs fs k) (path_at env z cs fs k)"
    by blast
  have "os_path_isfile env fs (path_at env z cs fs k)"
    using fk by (rule isfile_fs_at_mono)
  then show False using d ek isfile_dir [of fs env "path_at env z cs fs k"] by simp
qed


lemma run_checks_outcome:
  "(case List.find (refused_at env z cs fs) [0..<length cs] of
      None \<Rightarrow>
        run_checks env z cs ([], fs) =
          (Inr (concat (map (removed_at env z cs fs) [0..<length cs])), fs_after env z cs fs)
    | Some k \<Rightarrow>
        k < length cs
        \<and> (\<exists>e. unlink_error env (entry env (path_at env z cs fs k)) = Some e
              \<and> run_checks env z cs ([], fs) = (Inl e, fs_at env z cs fs k)))"
proof (cases "List.find (refused_at env z cs fs) [0..<length cs]")
  case None
  then have "\<forall>k<length cs. \<not> refused_at env z cs fs k"
    by (auto simp: find_None_iff)
  from run_checks_ok [OF this, of "[]"] None show ?thesis by simp
next
  case (Some k)
  then obtain i where i: "i < length [0..<length cs]"
    and p: "refused_at env z cs fs ([0..<length cs] ! i)"
    and ki: "k = [0..<length cs] ! i"
    and b: "\<forall>j<i. \<not> refused_at env z cs fs ([0..<length cs] ! j)"
    unfolding find_Some_iff by blast
  have k: "k < length cs" and rk: "refused_at env z cs fs k"
    using i p ki by simp_all
  have before: "\<forall>j<k. \<not> refused_at env z cs fs j"
    using b i ki by auto
  from rk obtain e where e: "unlink_error env (entry env (path_at env z cs fs k)) = Some e"
    by (auto simp: refused_at_def)
  from run_checks_refused [OF k rk before e, of "[]"] Some k e show ?thesis by simp
qed

lemma run_checks_final:
  "\<exists>m\<le>length cs. snd (run_checks env z cs ([], fs)) = fs_at env z cs fs m"
proof (cases "List.find (refused_at env z cs fs) [0..<length cs]")
  case None
  with run_checks_outcome [of env z cs fs]
  have "snd (run_checks env z cs ([], fs)) = fs_at env z cs fs (length cs)"
    by (simp add: fs_at_def)
  then show ?thesis by blast
next
  case (Some k)
  with run_checks_outcome [of env z cs fs]
  have "k \<le> length cs" "snd (run_checks env z cs ([], fs)) = fs_at env z cs fs k"
    by auto
  then show ?thesis by blast
qed



lemma joined_checks:
  "c \<in> set (checks env directories file_names) \<Longrightarrow>
     \<exists>d\<in>set directories. \<exists>f\<in>set file_names.
        join env (fst c) (snd c) = join env (abspath env (text_after_last_colon d)) f"
  by (force simp: checks_def)

section \<open>The claims about atomate2.common.jobs.utils\<close>

text \<open>
  Claim C9. \<open>remove_workflow_files\<close> and \<open>bader_analysis\<close> accept directories of the
  form \<open>host:/path\<close>: the string is split on the colon and only the text after the
  last colon is kept (the indexing never fails), it contains no colon, a string with no
  colon is kept as it is, and a prefix before the colon is dropped. Only the absolute
  path of that text reaches the loops of \<open>remove_workflow_files\<close> and pymatgen's
  \<open>bader_analysis_from_path\<close>, so no file system access sees the original string.
\<close>

theorem host_prefix_discarded:
  "split_colon_last d = Inr (text_after_last_colon d)
   \<and> CHR '':'' \<notin> set (text_after_last_colon d)
   \<and> (CHR '':'' \<notin> set d \<longrightarrow> text_after_last_colon d = d)
   \<and> (CHR '':'' \<notin> set p \<longrightarrow> text_after_last_colon (host @ '':'' @ p) = p)
   \<and> remove_workflow_files env directories file_names allow_zpath fs =
       remove_in_dirs env allow_zpath
         (map (\<lambda>d. abspath env (text_after_last_colon d)) directories) file_names ([], fs)
   \<and> bader_analysis env bader_analysis_from_path d suffix =
       Inr (bader_analysis_from_path (abspath env (text_after_last_colon d))
              (case suffix of None \<Rightarrow> [] | Some s \<Rightarrow> s))"
proof (intro conjI impI)
  show "split_colon_last d = Inr (text_after_last_colon d)"
    by (rule split_colon_last_eq)
  show "CHR '':'' \<notin> set (text_after_last_colon d)"
    by (rule text_after_last_colon_no_colon)
  show "text_after_last_colon d = d" if "CHR '':'' \<notin> set d"
    using that by (rule text_after_last_colon_plain)
  show "text_after_last_colon (host @ '':'' @ p) = p" if "CHR '':'' \<notin> set p"
    using that by (rule text_after_last_colon_host)
  show "remove_workflow_files env directories file_names allow_zpath fs =
       remove_in_dirs env allow_zpath
         (map (\<lambda>d. abspath env (text_after_last_colon d)) directories) file_names ([], fs)"
    by (simp add: remove_workflow_files_def abs_paths_of_eq)
  show "bader_analysis env bader_analysis_from_path d suffix =
       Inr (bader_analysis_from_path (abspath env (text_after_last_colon d))
              (case suffix of None \<Rightarrow> [] | Some s \<Rightarrow> s))"
    by (simp add: bader_analysis_def split_colon_last_eq split: option.splits)
qed

text \<open>The claim at \<open>h:/a\<close> and \<open>/a\<close>.\<close>

theorem host_prefix_discarded_witness:
  "CHR '':'' \<notin> set ''/a'' \<and> text_after_last_colon ''/a'' = ''/a''
   \<and> split_colon_last ''h:/a'' = Inr ''/a''
   \<and> bader_analysis sample_env (\<lambda>dir suffix. (dir, suffix)) ''h:/a'' None = Inr (''/a'', '''')"
proof -
  have h: "CHR '':'' \<notin> set ''/a''" by simp
  have a: "text_after_last_colon ''/a'' = ''/a''"
    and b: "text_after_last_colon (''h'' @ '':'' @ ''/a'') = ''/a''"
    using h host_prefix_discarded [of "''/a''" "''/a''" "''h''"] by blast+
  have c: "split_colon_last ''h:/a'' = Inr (text_after_last_colon ''h:/a'')"
    and e: "bader_analysis sample_env (\<lambda>dir suffix. (dir, suffix)) ''h:/a'' None =
       Inr (abspath sample_env (text_after_last_colon ''h:/a''), '''')"
    using host_prefix_discarded [of "''h:/a''" "''/a''" "''h''" sample_env "[]" "[]" False Map.empty
            "\<lambda>dir suffix. (dir, suffix)" None]
    by simp_all
  have f: "abspath sample_env ''/a'' = ''/a''" by (simp add: sample_env_def)
  show ?thesis using h a b c e f by simp
qed




text \<open>
  Claim C5, amended. \<open>remove_workflow_files\<close> removes only the files that the named
  paths denote, whether it returns or raises. An entry of the file system changes only by
  being unlinked, and only when it is the entry of the path of a check that found a
  regular file there. So an entry that is denoted neither by the joined path of a
  directory and a file name nor, with \<open>allow_zpath\<close>, by what \<open>zpath\<close> returned for one
  of them holds after the job what it held before, contents included; and a directory is
  never removed. A path denotes its entry under every spelling and through every linked
  directory: the statement is about entries, not about strings.
\<close>

theorem remove_workflow_files_removes_only_named:
  "let cs = checks env directories file_names;
       fs' = snd (remove_workflow_files env directories file_names allow_zpath fs)
   in (\<forall>e. fs' e \<noteq> fs e \<longrightarrow>
          fs' e = None
          \<and> (\<exists>k<length cs. e = entry env (path_at env allow_zpath cs fs k)
                \<and> os_path_isfile env (fs_at env allow_zpath cs fs k) (path_at env allow_zpath cs fs k)))
      \<and> (\<forall>e. (\<forall>d\<in>set directories. \<forall>f\<in>set file_names.
                  e \<noteq> entry env (join env (abspath env (text_after_last_colon d)) f))
              \<and> (allow_zpath \<longrightarrow>
                   (\<forall>k<length cs.
                      e \<noteq> entry env (zpath env (fs_at env allow_zpath cs fs k)
                                        (join env (fst (cs ! k)) (snd (cs ! k))))))
              \<longrightarrow> fs' e = fs e)
      \<and> (\<forall>e. fs e = Some Dir \<longrightarrow> fs' e = Some Dir)"
proof -
  define cs where "cs = checks env directories file_names"
  define fs' where "fs' = snd (remove_workflow_files env directories file_names allow_zpath fs)"
  obtain m where m: "m \<le> length cs" and final: "fs' = fs_after env allow_zpath (take m cs) fs"
    using run_checks_final [of cs env allow_zpath fs]
    by (auto simp: fs'_def cs_def remove_workflow_files_flat fs_at_def)
  have changed: "fs' e = None
          \<and> (\<exists>k<length cs. e = entry env (path_at env allow_zpath cs fs k)
                \<and> os_path_isfile env (fs_at env allow_zpath cs fs k) (path_at env allow_zpath cs fs k))"
    if ne: "fs' e \<noteq> fs e" for e
  proof -
    from ne have "fs_after env allow_zpath (take m cs) fs e \<noteq> fs e" by (simp add: final)
    from fs_after_changed [OF this] obtain k where k: "k < length (take m cs)"
      and n: "fs_after env allow_zpath (take m cs) fs e = None"
      and ek: "e = entry env (path_at env allow_zpath (take m cs) fs k)"
      and fk: "os_path_isfile env (fs_at env allow_zpath (take m cs) fs k)
                 (path_at env allow_zpath (take m cs) fs k)"
      by blast
    have km: "k < m" "k < length cs" using k m by simp_all
    have "e = entry env (path_at env allow_zpath cs fs k)"
      using ek km by (simp add: path_at_take)
    moreover have "os_path_isfile env (fs_at env allow_zpath cs fs k) (path_at env allow_zpath cs fs k)"
      using fk km by (simp add: path_at_take fs_at_take)
    ultimately show ?thesis using n km final by auto
  qed
  have named: "fs' e = fs e"
    if h1: "\<forall>d\<in>set directories. \<forall>f\<in>set file_names.
                  e \<noteq> entry env (join env (abspath env (text_after_last_colon d)) f)"
    and h2: "allow_zpath \<longrightarrow>
                   (\<forall>k<length cs.
                      e \<noteq> entry env (zpath env (fs_at env allow_zpath cs fs k)
                                        (join env (fst (cs ! k)) (snd (cs ! k)))))" for e
  proof (rule ccontr)
    assume "fs' e \<noteq> fs e"
    from changed [OF this] obtain k where k: "k < length cs"
      and ek: "e = entry env (path_at env allow_zpath cs fs k)"
      by blast
    show False
    proof (cases allow_zpath)
      case True
      with h2 k have "e \<noteq> entry env (zpath env (fs_at env allow_zpath cs fs k)
                                        (join env (fst (cs ! k)) (snd (cs ! k))))"
        by blast
      with ek True show False by (simp add: path_at_def checked_path_def)
    next
      case False
      then have "e = entry env (join env (fst (cs ! k)) (snd (cs ! k)))"
        using ek by (simp add: path_at_def checked_path_def)
      moreover have "cs ! k \<in> set (checks env directories file_names)"
        using k by (simp add: cs_def)
      ultimately show False using h1 joined_checks by metis
    qed
  qed
  have dirs: "fs' e = Some Dir" if "fs e = Some Dir" for e
    unfolding final using that by (rule fs_after_dir)
  show ?thesis
    unfolding Let_def cs_def [symmetric] fs'_def [symmetric]
    using changed named dirs by blast
qed

text \<open>The claim on the sample file system: the directory \<open>/a/C\<close> is named and stays,
  and the file \<open>/a/K\<close>, which no check names, keeps its contents, also in the run that
  raises.\<close>

theorem remove_workflow_files_removes_only_named_witness:
  "snd (remove_workflow_files sample_env [''h:/a'', ''/s''] [''W'', ''C'', ''L''] True sample_fs) ''/a/K''
     = Some (File ''3'')
   \<and> snd (remove_workflow_files sample_env [''h:/a'', ''/s''] [''W'', ''C'', ''L''] True sample_fs) ''/a/C''
     = Some Dir
   \<and> snd (remove_workflow_files guarded_env [''/a''] [''W'', ''W.gz''] False sample_fs) ''/a/K''
     = Some (File ''3'')"
proof -
  have d: "sample_fs ''/a/C'' = Some Dir" and k: "sample_fs ''/a/K'' = Some (File ''3'')"
    by (simp_all add: sample_fs_def)
  have c: "snd (remove_workflow_files sample_env [''h:/a'', ''/s''] [''W'', ''C'', ''L''] True sample_fs) ''/a/C''
     = Some Dir"
    using remove_workflow_files_removes_only_named [of sample_env "[''h:/a'', ''/s'']" "[''W'', ''C'', ''L'']" True sample_fs] d
    unfolding Let_def by blast
  have n: "\<forall>d\<in>set [''/a'']. \<forall>f\<in>set [''W'', ''W.gz''].
             ''/a/K'' \<noteq> entry guarded_env (join guarded_env (abspath guarded_env (text_after_last_colon d)) f)"
    by code_simp
  have g: "snd (remove_workflow_files guarded_env [''/a''] [''W'', ''W.gz''] False sample_fs) ''/a/K''
     = sample_fs ''/a/K''"
    using remove_workflow_files_removes_only_named [of guarded_env "[''/a'']" "[''W'', ''W.gz'']" False sample_fs] n
    unfolding Let_def by blast
  have "snd (remove_workflow_files sample_env [''h:/a'', ''/s''] [''W'', ''C'', ''L''] True sample_fs) ''/a/K''
     = Some (File ''3'')"
    by code_simp
  then show ?thesis using c g k by simp
qed

text \<open>Claim C5 as the specification words it, by the form of the path, fails for a file
  that has a second path: asked to remove \<open>W\<close> from the linked directory \<open>/s\<close>, the
  job names \<open>/s/W\<close> only, and the file \<open>/a/W\<close>, whose path is not of that form, is
  gone afterwards.\<close>

theorem remove_workflow_files_removes_through_link:
  "join sample_env (abspath sample_env (text_after_last_colon ''/s'')) ''W'' = ''/s/W''
   \<and> fst (remove_workflow_files sample_env [''/s''] [''W''] False sample_fs) = Inr [''/s/W'']
   \<and> sample_fs ''/a/W'' = Some (File ''1'')
   \<and> os_path_isfile sample_env sample_fs ''/a/W''
   \<and> snd (remove_workflow_files sample_env [''/s''] [''W''] False sample_fs) ''/a/W'' = None
   \<and> \<not> os_path_isfile sample_env
         (snd (remove_workflow_files sample_env [''/s''] [''W''] False sample_fs)) ''/a/W''"
  by code_simp

section \<open>The claims about atomate2.qchem.drones\<close>

text \<open>
  Claim C2 says that \<open>get_valid_paths\<close> never raises and returns the parent when the
  directory holds QChem output and the empty list otherwise. On a walk triple whose
  directory holds \<open>mol.qout\<close> as a file and has no subdirectory, the source reaches
  \<open>parent.glob\<close> on a \<open>str\<close> and raises \<open>AttributeError\<close>.
\<close>

theorem get_valid_paths_raises:
  "get_valid_paths (''/calc'', [], [''mol.qout'']) = Inl AttributeError"
  by (simp add: get_valid_paths_def str_glob_def os_sep_def endswith_def)

text \<open>
  Claim C3, amended. \<open>assimilate\<close> returns exactly the document of
  \<open>TaskDoc.from_directory(path, **task_document_kwargs)\<close>, with the working directory
  for the path \<open>None\<close>: it returns a document exactly when the path is found and the
  constructor returns that document, and the logger is then untouched. When the
  constructor raises, \<open>assimilate\<close> raises and returns no document: an exception that is
  no instance of \<open>Exception\<close> (\<open>KeyboardInterrupt\<close>, \<open>SystemExit\<close>) passes through with
  nothing logged; an instance of \<open>Exception\<close> is logged with the absolute path and
  raised again, unless the absolute path cannot be found, in which case that failure is
  raised and nothing is logged. When the path is \<open>None\<close> and the working directory
  cannot be found, that exception is raised and the constructor is not called.
\<close>

theorem assimilate_propagates:
  "let p = (case path of None \<Rightarrow> cwd env | Some q \<Rightarrow> Inr q);
       run = assimilate env task_document_kwargs path logger
   in (\<forall>doc. fst run = Inr doc \<longleftrightarrow>
          (\<exists>q. p = Inr q \<and> from_directory env q task_document_kwargs = Inr doc))
      \<and> (\<forall>q doc. p = Inr q \<and> from_directory env q task_document_kwargs = Inr doc
            \<longrightarrow> run = (Inr doc, logger))
      \<and> (\<forall>q e. p = Inr q \<and> from_directory env q task_document_kwargs = Inl e
            \<longrightarrow> (\<exists>e'. fst run = Inl e')
                \<and> (\<not> isinstance_Exception e \<longrightarrow> run = (Inl e, logger))
                \<and> (\<forall>a. isinstance_Exception e \<and> absolute env q = Inr a
                       \<longrightarrow> run = (Inl e, logger @ [(a, e)]))
                \<and> (\<forall>e'. isinstance_Exception e \<and> absolute env q = Inl e'
                       \<longrightarrow> run = (Inl e', logger)))
      \<and> (\<forall>e. p = Inl e \<longrightarrow> run = (Inl e, logger))"
  by (auto simp: assimilate_def Let_def split: option.splits sum.splits)

text \<open>The claim in the sample environment: the working directory is parsed, and the
  failure to parse \<open>/other\<close> is logged and raised again.\<close>

theorem assimilate_propagates_witness:
  "assimilate sample_drone_env [] None [] = (Inr ''TaskDoc of /calc'', [])
   \<and> assimilate sample_drone_env [] (Some ''/other'') [] =
       (Inl FileNotFoundError, [(''/other'', FileNotFoundError)])"
proof -
  have c: "cwd sample_drone_env = Inr ''/calc''"
    and a: "absolute sample_drone_env ''/other'' = Inr ''/other''"
    and d: "from_directory sample_drone_env ''/calc'' [] = Inr ''TaskDoc of /calc''"
    and e: "from_directory sample_drone_env ''/other'' [] = Inl FileNotFoundError"
    by (simp_all add: sample_drone_env_def)
  have "assimilate sample_drone_env [] None [] = (Inr ''TaskDoc of /calc'', [])"
    using assimilate_propagates [where path = None and env = sample_drone_env
            and task_document_kwargs = "[]" and logger = "[]"] c d
    unfolding Let_def by simp
  moreover have "assimilate sample_drone_env [] (Some ''/other'') [] =
       (Inl FileNotFoundError, [] @ [(''/other'', FileNotFoundError)])"
    using assimilate_propagates [where path = "Some ''/other''" and env = sample_drone_env
            and task_document_kwargs = "[]" and logger = "[]"] a e
    unfolding Let_def by simp
  ultimately show ?thesis by simp
qed

text \<open>Claim C3 as the specification words it, \<open>re-raises the same exception (after
  logging)\<close> whenever the constructor raises, fails for an interrupt: the clause
  \<open>except Exception\<close> does not catch \<open>KeyboardInterrupt\<close>, which leaves \<open>assimilate\<close>
  with nothing logged.\<close>

theorem assimilate_interrupt_not_logged:
  "from_directory interrupted_drone_env ''/calc'' [] = Inl KeyboardInterrupt
   \<and> assimilate interrupted_drone_env [] (Some ''/calc'') [] = (Inl KeyboardInterrupt, [])"
  by (simp add: assimilate_def interrupted_drone_env_def sample_drone_env_def)

section \<open>The claim about the Materials Project lookup\<close>

lemma origins_dict_structure:
  "origins_dict props name =
     (case filter (\<lambda>prop. origin_name prop = name) props of
        [] \<Rightarrow> None
      | _ \<Rightarrow> Some (last (filter (\<lambda>prop. origin_name prop = name) props)))"
proof (induction props rule: rev_induct)
  case Nil
  then show ?case by (simp add: origins_dict_def)
next
  case (snoc x xs)
  then show ?case
    by (auto simp: origins_dict_def split: list.splits)
qed

lemma find_doc_cases:
  "find_doc mpr i use_task_id =
     (case (if use_task_id then tasks_search mpr i else materials_search mpr i) of
        Inl e \<Rightarrow> Inl e
      | Inr [] \<Rightarrow> Inl IndexError
      | Inr (doc # docs) \<Rightarrow>
          if use_task_id then Inr (doc, i)
          else if structure_origins doc = [] then Inl KeyError
          else Inr (doc, task_id (last (structure_origins doc))))"
  by (auto simp: find_doc_def index_first_def dict_get_def origins_dict_structure
        structure_origins_def split: sum.splits list.splits)

text \<open>
  Claim C6, amended. \<open>retrieve_structure_from_materials_project\<close> raises \<open>ImportError\<close>
  when the \<open>mp_api\<close> client package cannot be imported, and an exception of the client
  (its construction, its search, its version query) leaves the job as it is. When the
  search returns no document the job raises \<open>IndexError\<close>; when \<open>use_task_id\<close> is false
  and the first document has no origin named \<open>structure\<close> it raises \<open>KeyError\<close>.
  Otherwise it returns a response whose output is the structure of the first document,
  with the site property \<open>magmom\<close> removed by \<open>remove_site_property\<close> when
  \<open>reset_magnetic_moments\<close> is true and the structure has that property and unmodified
  in all other cases, and whose stored data are the task id (the input id when
  \<open>use_task_id\<close> is true, otherwise the task id of the last origin named \<open>structure\<close>)
  and the database version.
\<close>

theorem retrieve_structure_outcomes:
  "let job = retrieve_structure_from_materials_project lib mp_api material_id_or_task_id
               use_task_id reset_magnetic_moments
   in (mp_api = None \<longrightarrow> job = Inl ImportError)
      \<and> (\<forall>e. mp_api = Some (Inl e) \<longrightarrow> job = Inl e)
      \<and> (\<forall>mpr. mp_api = Some (Inr mpr) \<longrightarrow>
           (let search = (if use_task_id then tasks_search mpr material_id_or_task_id
                          else materials_search mpr material_id_or_task_id)
            in (\<forall>e. search = Inl e \<longrightarrow> job = Inl e)
               \<and> (search = Inr [] \<longrightarrow> job = Inl IndexError)
               \<and> (\<forall>doc docs. search = Inr (doc # docs) \<longrightarrow>
                     (\<not> use_task_id \<and> structure_origins doc = [] \<longrightarrow> job = Inl KeyError)
                     \<and> (use_task_id \<or> structure_origins doc \<noteq> [] \<longrightarrow>
                          (\<forall>e. get_database_version mpr = Inl e \<longrightarrow> job = Inl e)
                          \<and> (\<forall>v. get_database_version mpr = Inr v \<longrightarrow>
                                job = Inr
                                  \<lparr>response_output =
                                     (if reset_magnetic_moments
                                         \<and> ''magmom'' \<in> set (site_properties lib (doc_structure doc))
                                      then remove_site_property lib (doc_structure doc) ''magmom''
                                      else doc_structure doc),
                                   response_replace = None,
                                   response_stored_data =
                                     Some [(''task_id'',
                                            if use_task_id then material_id_or_task_id
                                            else task_id (last (structure_origins doc))),
                                           (''database_version'', v)]\<rparr>)))))"
  by (auto simp: retrieve_structure_from_materials_project_def find_doc_cases Let_def
        split: option.splits sum.splits list.splits)

text \<open>The claim with the sample client: the material \<open>mp-149\<close> is found, its magnetic
  moments are removed and the task \<open>mp-1\<close> is stored; without the package the job raises
  \<open>ImportError\<close>.\<close>

theorem retrieve_structure_outcomes_witness:
  "retrieve_structure_from_materials_project sample_pymatgen (Some (Inr sample_rester))
       ''mp-149'' False True =
     Inr \<lparr>response_output = \<lparr>st_species = [''Si'', ''Si''],
                              st_properties = [(''charge'', [''0'', ''0''])]\<rparr>,
          response_replace = None,
          response_stored_data = Some [(''task_id'', ''mp-1''), (''database_version'', ''2024.1'')]\<rparr>
   \<and> retrieve_structure_from_materials_project sample_pymatgen None ''mp-149'' False True =
       Inl ImportError"
proof -
  let ?doc = "\<lparr>doc_structure = silicon,
               doc_origins = [\<lparr>origin_name = ''structure'', task_id = ''mp-1''\<rparr>,
                              \<lparr>origin_name = ''energy'', task_id = ''mp-2''\<rparr>]\<rparr>"
  have s: "materials_search sample_rester ''mp-149'' = Inr (?doc # [])"
    and v: "get_database_version sample_rester = Inr ''2024.1''"
    by (simp_all add: sample_rester_def)
  have o: "structure_origins ?doc = [\<lparr>origin_name = ''structure'', task_id = ''mp-1''\<rparr>]"
    by (simp add: structure_origins_def)
  have m: "''magmom'' \<in> set (site_properties sample_pymatgen silicon)"
    and r: "remove_site_property sample_pymatgen silicon ''magmom'' =
       \<lparr>st_species = [''Si'', ''Si''], st_properties = [(''charge'', [''0'', ''0''])]\<rparr>"
    by (simp_all add: sample_pymatgen_def silicon_def)
  have "retrieve_structure_from_materials_project sample_pymatgen (Some (Inr sample_rester))
       ''mp-149'' False True =
     Inr \<lparr>response_output = remove_site_property sample_pymatgen silicon ''magmom'',
          response_replace = None,
          response_stored_data = Some [(''task_id'', ''mp-1''), (''database_version'', ''2024.1'')]\<rparr>"
    using retrieve_structure_outcomes
            [where lib = sample_pymatgen and mp_api = "Some (Inr sample_rester)"
               and material_id_or_task_id = "''mp-149''" and use_task_id = False
               and reset_magnetic_moments = True] s v o m
    unfolding Let_def by simp
  moreover have "retrieve_structure_from_materials_project sample_pymatgen None ''mp-149'' False True =
       Inl ImportError"
    using retrieve_structure_outcomes
            [where lib = sample_pymatgen and mp_api = None
               and material_id_or_task_id = "''mp-149''" and use_task_id = False
               and reset_magnetic_moments = True]
    unfolding Let_def by simp
  ultimately show ?thesis using r by simp
qed

text \<open>Claim C6 as the specification words it, a response for every id once the package
  is imported, fails for an id the database does not know: the search returns the empty
  list and \<open>[0]\<close> raises \<open>IndexError\<close>.\<close>

theorem retrieve_structure_unknown_id:
  "materials_search sample_rester ''mp-0'' = Inr []
   \<and> retrieve_structure_from_materials_project sample_pymatgen (Some (Inr sample_rester))
       ''mp-0'' False False = Inl IndexError"
  by (simp add: retrieve_structure_from_materials_project_def find_doc_def index_first_def
        sample_rester_def)

section \<open>The claims about atomate2.vasp.flows.mp\<close>

lemma recursive_get_dir_names_all_jobs:
  "recursive_get_dir_names nodes dir_names =
     dir_names @ map (\<lambda>j. OutputReference (job_uuid j) [''dir_name'']) (all_jobs nodes)"
  by (induction nodes dir_names rule: recursive_get_dir_names.induct) simp_all

lemma maker_make_calls:
  "make_calls (snd (maker_make m struct prev_dir w)) =
     make_calls w @ [(maker_name m, struct, prev_dir)]"
  by (simp add: maker_make_def split: prod.splits)

text \<open>
  Claim C1. For every structure and previous directory, \<open>make\<close> of
  \<open>MPGGADoubleRelaxStaticMaker\<close>, and likewise of \<open>MPMetaGGADoubleRelaxStaticMaker\<close>,
  first calls \<open>relax_maker.make\<close> on the structure and the previous directory. Without a
  static maker that is the only call, and the flow holds the relax flow alone and has its
  output. With a static maker the second and last call is \<open>static_maker.make\<close> on the
  \<open>structure\<close> and the \<open>dir_name\<close> of the relax flow's output, and the flow holds the
  relax flow and the static job, in that order, and has the output of the static job. The
  flow carries the name of the maker.
\<close>

theorem double_relax_static_make_sequence:
  "(let relax = maker_make (gga_relax_maker gga) struct prev_dir w;
        out = node_output (fst relax);
        made = MPGGADoubleRelaxStaticMaker_make gga struct prev_dir w
    in (gga_static_maker gga = None \<longrightarrow>
          made = (Flow [fst relax] out (gga_name gga), snd relax)
          \<and> make_calls (snd made) =
              make_calls w @ [(maker_name (gga_relax_maker gga), struct, prev_dir)])
       \<and> (\<forall>sm. gga_static_maker gga = Some sm \<longrightarrow>
            (let static = maker_make sm (Reference (ref_getattr out ''structure''))
                            (Some (Reference (ref_getattr out ''dir_name''))) (snd relax)
             in made = (Flow [fst relax, fst static] (node_output (fst static)) (gga_name gga),
                        snd static)
                \<and> make_calls (snd made) =
                    make_calls w @
                      [(maker_name (gga_relax_maker gga), struct, prev_dir),
                       (maker_name sm, Reference (ref_getattr out ''structure''),
                        Some (Reference (ref_getattr out ''dir_name'')))])))
   \<and> (let relax = maker_make (meta_relax_maker meta) struct prev_dir w;
          out = node_output (fst relax);
          made = MPMetaGGADoubleRelaxStaticMaker_make meta struct prev_dir w
      in (meta_static_maker meta = None \<longrightarrow>
            made = (Flow [fst relax] out (meta_name meta), snd relax)
            \<and> make_calls (snd made) =
                make_calls w @ [(maker_name (meta_relax_maker meta), struct, prev_dir)])
         \<and> (\<forall>sm. meta_static_maker meta = Some sm \<longrightarrow>
              (let static = maker_make sm (Reference (ref_getattr out ''structure''))
                              (Some (Reference (ref_getattr out ''dir_name''))) (snd relax)
               in made = (Flow [fst relax, fst static] (node_output (fst static)) (meta_name meta),
                          snd static)
                  \<and> make_calls (snd made) =
                      make_calls w @
                        [(maker_name (meta_relax_maker meta), struct, prev_dir),
                         (maker_name sm, Reference (ref_getattr out ''structure''),
                          Some (Reference (ref_getattr out ''dir_name'')))])))"
  by (simp add: MPGGADoubleRelaxStaticMaker_make_def MPMetaGGADoubleRelaxStaticMaker_make_def
        Let_def case_prod_beta maker_make_calls)

text \<open>The claim with the sample makers: the GGA maker with a static maker, the meta-GGA
  maker without one.\<close>

theorem double_relax_static_make_sequence_witness:
  "MPGGADoubleRelaxStaticMaker_make
     \<lparr>gga_name = ''MP GGA relax'', gga_relax_maker = sample_relax_maker,
      gga_static_maker = Some sample_static_maker\<rparr> (Value ''Si'') None sample_world =
     (Flow [Flow [Job \<lparr>job_uuid = 7, job_name = ''relax 1'',
                       job_args = Calculation (Value ''Si'') None, write_additional_data = []\<rparr>,
                  Job \<lparr>job_uuid = 8, job_name = ''relax 2'',
                       job_args = Calculation (Reference (OutputReference 7 [''structure'']))
                                    (Some (Reference (OutputReference 7 [''dir_name'']))),
                       write_additional_data = []\<rparr>]
              (OutputReference 8 []) ''double relax'',
            Job \<lparr>job_uuid = 9, job_name = ''static'',
                 job_args = Calculation (Reference (OutputReference 8 [''structure'']))
                              (Some (Reference (OutputReference 8 [''dir_name'']))),
                 write_additional_data = []\<rparr>]
        (OutputReference 9 []) ''MP GGA relax'',
      \<lparr>uuid_counter = 10,
       make_calls = [(''double relax'', Value ''Si'', None),
                     (''static'', Reference (OutputReference 8 [''structure'']),
                      Some (Reference (OutputReference 8 [''dir_name''])))]\<rparr>)
   \<and> fst (MPMetaGGADoubleRelaxStaticMaker_make
        \<lparr>meta_name = ''MP meta-GGA relax'', meta_relax_maker1 = None,
         meta_relax_maker2 = sample_static_maker, meta_relax_maker = sample_relax_maker,
         meta_static_maker = None\<rparr> (Value ''Si'') (Some (Value ''/prev'')) sample_world) =
     Flow [Flow [Job \<lparr>job_uuid = 7, job_name = ''relax 1'',
                      job_args = Calculation (Value ''Si'') (Some (Value ''/prev'')),
                      write_additional_data = []\<rparr>,
                 Job \<lparr>job_uuid = 8, job_name = ''relax 2'',
                      job_args = Calculation (Reference (OutputReference 7 [''structure'']))
                                   (Some (Reference (OutputReference 7 [''dir_name'']))),
                      write_additional_data = []\<rparr>]
             (OutputReference 8 []) ''double relax'']
       (OutputReference 8 []) ''MP meta-GGA relax''"
  using double_relax_static_make_sequence
          [where gga = "\<lparr>gga_name = ''MP GGA relax'', gga_relax_maker = sample_relax_maker,
                         gga_static_maker = Some sample_static_maker\<rparr>"
             and meta = "\<lparr>meta_name = ''MP meta-GGA relax'', meta_relax_maker1 = None,
                          meta_relax_maker2 = sample_static_maker,
                          meta_relax_maker = sample_relax_maker, meta_static_maker = None\<rparr>"
             and struct = "Value ''Si''" and prev_dir = None and w = sample_world]
        double_relax_static_make_sequence
          [where gga = "\<lparr>gga_name = ''MP GGA relax'', gga_relax_maker = sample_relax_maker,
                         gga_static_maker = Some sample_static_maker\<rparr>"
             and meta = "\<lparr>meta_name = ''MP meta-GGA relax'', meta_relax_maker1 = None,
                          meta_relax_maker2 = sample_static_maker,
                          meta_relax_maker = sample_relax_maker, meta_static_maker = None\<rparr>"
             and struct = "Value ''Si''" and prev_dir = "Some (Value ''/prev'')"
             and w = sample_world]
  by (simp add: Let_def maker_make_def sample_relax_maker_def sample_static_maker_def
        sample_world_def)

text \<open>
  Claim C7. For every structure, \<open>make\<close> of \<open>MP24DoubleRelaxStaticMaker\<close> returns a
  flow with the name of the maker whose output is the output of the static job and whose
  first two jobs are the relax flow and the static job. When \<open>clean_files\<close> is a
  non-empty sequence the flow holds one more job, the last: a \<open>remove_workflow_files\<close>
  job with a fresh uuid whose directories are the \<open>dir_name\<close> outputs of all the jobs of
  the relax flow and of the static job, whose file names are \<open>clean_files\<close> and whose
  \<open>allow_zpath\<close> is true. When \<open>clean_files\<close> is \<open>None\<close> or empty the flow holds the
  relax flow and the static job and nothing else.
\<close>

theorem mp24_make_flow:
  "let relax = maker_make (mp24_relax_maker self) struct prev_dir w;
       static = maker_make (mp24_static_maker self)
                  (Reference (ref_getattr (node_output (fst relax)) ''structure''))
                  (Some (Reference (ref_getattr (node_output (fst relax)) ''dir_name'')))
                  (snd relax);
       flow = fst (MP24DoubleRelaxStaticMaker_make self struct prev_dir w)
   in flow = Flow (flow_jobs flow) (node_output (fst static)) (mp24_name self)
      \<and> take 2 (flow_jobs flow) = [fst relax, fst static]
      \<and> (truthy (clean_files self) \<longrightarrow>
            flow_jobs flow =
              [fst relax, fst static,
               Job \<lparr>job_uuid = uuid_counter (snd static),
                    job_name = ''remove_workflow_files'',
                    job_args = Remove_workflow_files
                      (map (\<lambda>j. OutputReference (job_uuid j) [''dir_name''])
                         (all_jobs [fst relax, fst static]))
                      (clean_files self) True,
                    write_additional_data = []\<rparr>])
      \<and> (\<not> truthy (clean_files self) \<longrightarrow> flow_jobs flow = [fst relax, fst static])"
proof (cases "clean_files self")
  case PyNone
  then show ?thesis
    by (simp add: MP24DoubleRelaxStaticMaker_make_def Let_def split: prod.splits)
next
  case (PyTuple xs)
  then show ?thesis
    by (cases "xs = []")
       (simp_all add: MP24DoubleRelaxStaticMaker_make_def Let_def remove_workflow_files_job_def
          recursive_get_dir_names_all_jobs split: prod.splits)
next
  case (PyList xs)
  then show ?thesis
    by (cases "xs = []")
       (simp_all add: MP24DoubleRelaxStaticMaker_make_def Let_def remove_workflow_files_job_def
          recursive_get_dir_names_all_jobs split: prod.splits)
qed

text \<open>The claim with the sample makers and the default \<open>clean_files\<close>.\<close>

theorem mp24_make_flow_witness:
  "fst (MP24DoubleRelaxStaticMaker_make
          \<lparr>mp24_name = ''MP24 r2SCAN workflow'', mp24_relax_maker = sample_relax_maker,
           mp24_static_maker = sample_static_maker, clean_files = PyTuple [''WAVECAR'']\<rparr>
          (Value ''Si'') None sample_world) =
     Flow [Flow [Job \<lparr>job_uuid = 7, job_name = ''relax 1'',
                      job_args = Calculation (Value ''Si'') None, write_additional_data = []\<rparr>,
                 Job \<lparr>job_uuid = 8, job_name = ''relax 2'',
                      job_args = Calculation (Reference (OutputReference 7 [''structure'']))
                                   (Some (Reference (OutputReference 7 [''dir_name'']))),
                      write_additional_data = []\<rparr>]
             (OutputReference 8 []) ''double relax'',
           Job \<lparr>job_uuid = 9, job_name = ''static'',
                job_args = Calculation (Reference (OutputReference 8 [''structure'']))
                             (Some (Reference (OutputReference 8 [''dir_name'']))),
                write_additional_data = []\<rparr>,
           Job \<lparr>job_uuid = 10, job_name = ''remove_workflow_files'',
                job_args = Remove_workflow_files
                  [OutputReference 7 [''dir_name''], OutputReference 8 [''dir_name''],
                   OutputReference 9 [''dir_name'']]
                  (PyTuple [''WAVECAR'']) True,
                write_additional_data = []\<rparr>]
       (OutputReference 9 []) ''MP24 r2SCAN workflow''"
proof -
  let ?self = "\<lparr>mp24_name = ''MP24 r2SCAN workflow'', mp24_relax_maker = sample_relax_maker,
           mp24_static_maker = sample_static_maker, clean_files = PyTuple [''WAVECAR'']\<rparr>"
  let ?flow = "fst (MP24DoubleRelaxStaticMaker_make ?self (Value ''Si'') None sample_world)"
  have t: "truthy (clean_files ?self)" by simp
  note claim = mp24_make_flow [where self = ?self and struct = "Value ''Si''"
                 and prev_dir = None and w = sample_world, unfolded Let_def]
  from claim have shape: "?flow = Flow (flow_jobs ?flow)
       (node_output (fst (maker_make (mp24_static_maker ?self)
          (Reference (ref_getattr (node_output (fst (maker_make (mp24_relax_maker ?self)
             (Value ''Si'') None sample_world))) ''structure''))
          (Some (Reference (ref_getattr (node_output (fst (maker_make (mp24_relax_maker ?self)
             (Value ''Si'') None sample_world))) ''dir_name'')))
          (snd (maker_make (mp24_relax_maker ?self) (Value ''Si'') None sample_world)))))
       (mp24_name ?self)"
    by blast
  from claim t have jobs: "flow_jobs ?flow =
       [fst (maker_make (mp24_relax_maker ?self) (Value ''Si'') None sample_world),
        fst (maker_make (mp24_static_maker ?self)
          (Reference (ref_getattr (node_output (fst (maker_make (mp24_relax_maker ?self)
             (Value ''Si'') None sample_world))) ''structure''))
          (Some (Reference (ref_getattr (node_output (fst (maker_make (mp24_relax_maker ?self)
             (Value ''Si'') None sample_world))) ''dir_name'')))
          (snd (maker_make (mp24_relax_maker ?self) (Value ''Si'') None sample_world))),
        Job \<lparr>job_uuid = uuid_counter (snd (maker_make (mp24_static_maker ?self)
          (Reference (ref_getattr (node_output (fst (maker_make (mp24_relax_maker ?self)
             (Value ''Si'') None sample_world))) ''structure''))
          (Some (Reference (ref_getattr (node_output (fst (maker_make (mp24_relax_maker ?self)
             (Value ''Si'') None sample_world))) ''dir_name'')))
          (snd (maker_make (mp24_relax_maker ?self) (Value ''Si'') None sample_world)))),
             job_name = ''remove_workflow_files'',
             job_args = Remove_workflow_files
               (map (\<lambda>j. OutputReference (job_uuid j) [''dir_name''])
                  (all_jobs [fst (maker_make (mp24_relax_maker ?self) (Value ''Si'') None sample_world),
        fst (maker_make (mp24_static_maker ?self)
          (Reference (ref_getattr (node_output (fst (maker_make (mp24_relax_maker ?self)
             (Value ''Si'') None sample_world))) ''structure''))
          (Some (Reference (ref_getattr (node_output (fst (maker_make (mp24_relax_maker ?self)
             (Value ''Si'') None sample_world))) ''dir_name'')))
          (snd (maker_make (mp24_relax_maker ?self) (Value ''Si'') None sample_world)))]))
               (clean_files ?self) True,
             write_additional_data = []\<rparr>]"
    by blast
  show ?thesis
    by (subst shape, subst jobs)
       (simp add: maker_make_def sample_relax_maker_def sample_static_maker_def sample_world_def)
qed

text \<open>
  Claim C8. \<open>make\<close> of \<open>MP24DoubleRelaxStaticMaker\<close> changes its own maker: when
  \<open>clean_files\<close> is falsy (\<open>None\<close> or an empty sequence) the call leaves the maker with
  \<open>clean_files\<close> set to the empty list and every other field as it was, which is a
  different maker when the field held \<open>None\<close> or the empty tuple; when \<open>clean_files\<close> is
  a non-empty sequence the maker is left as it was.
\<close>

theorem mp24_make_reassigns_clean_files:
  "let self' = fst (snd (MP24DoubleRelaxStaticMaker_make self struct prev_dir w))
   in (\<not> truthy (clean_files self) \<longrightarrow> self' = self\<lparr>clean_files := PyList []\<rparr>)
      \<and> (clean_files self = PyNone \<or> clean_files self = PyTuple [] \<longrightarrow> self' \<noteq> self)
      \<and> (truthy (clean_files self) \<longrightarrow> self' = self)"
proof -
  have neq: "self\<lparr>clean_files := PyList []\<rparr> \<noteq> self"
    if "clean_files self = PyNone \<or> clean_files self = PyTuple []"
  proof
    assume "self\<lparr>clean_files := PyList []\<rparr> = self"
    then have "clean_files (self\<lparr>clean_files := PyList []\<rparr>) = clean_files self" by simp
    with that show False by auto
  qed
  have falsy: "\<not> truthy (clean_files self)"
    if "clean_files self = PyNone \<or> clean_files self = PyTuple []"
    using that by auto
  have a: "fst (snd (MP24DoubleRelaxStaticMaker_make self struct prev_dir w)) =
        self\<lparr>clean_files := PyList []\<rparr>" if "\<not> truthy (clean_files self)"
    using that
    by (simp add: MP24DoubleRelaxStaticMaker_make_def Let_def split: prod.splits)
  have b: "fst (snd (MP24DoubleRelaxStaticMaker_make self struct prev_dir w)) = self"
    if "truthy (clean_files self)"
    using that
    by (cases "clean_files self")
       (simp_all add: MP24DoubleRelaxStaticMaker_make_def Let_def split: prod.splits)
  show ?thesis
    unfolding Let_def using a b neq falsy by metis
qed

text \<open>The claim on a maker without files to clean and on the default maker.\<close>

theorem mp24_make_reassigns_clean_files_witness:
  "fst (snd (MP24DoubleRelaxStaticMaker_make
          \<lparr>mp24_name = ''MP24 r2SCAN workflow'', mp24_relax_maker = sample_relax_maker,
           mp24_static_maker = sample_static_maker, clean_files = PyNone\<rparr>
          (Value ''Si'') None sample_world)) =
     \<lparr>mp24_name = ''MP24 r2SCAN workflow'', mp24_relax_maker = sample_relax_maker,
      mp24_static_maker = sample_static_maker, clean_files = PyList []\<rparr>
   \<and> fst (snd (MP24DoubleRelaxStaticMaker_make
          \<lparr>mp24_name = ''MP24 r2SCAN workflow'', mp24_relax_maker = sample_relax_maker,
           mp24_static_maker = sample_static_maker, clean_files = PyTuple [''WAVECAR'']\<rparr>
          (Value ''Si'') None sample_world)) =
     \<lparr>mp24_name = ''MP24 r2SCAN workflow'', mp24_relax_maker = sample_relax_maker,
      mp24_static_maker = sample_static_maker, clean_files = PyTuple [''WAVECAR'']\<rparr>"
  using mp24_make_reassigns_clean_files
          [where self = "\<lparr>mp24_name = ''MP24 r2SCAN workflow'', mp24_relax_maker = sample_relax_maker,
                          mp24_static_maker = sample_static_maker, clean_files = PyNone\<rparr>"
             and struct = "Value ''Si''" and prev_dir = None and w = sample_world]
        mp24_make_reassigns_clean_files
          [where self = "\<lparr>mp24_name = ''MP24 r2SCAN workflow'', mp24_relax_maker = sample_relax_maker,
                          mp24_static_maker = sample_static_maker,
                          clean_files = PyTuple [''WAVECAR'']\<rparr>"
             and struct = "Value ''Si''" and prev_dir = None and w = sample_world]
  by (simp add: Let_def)

section \<open>The claim about atomate2.vasp.jobs.defect\<close>

lemma spawn_loop_jobs:
  "spawn_loop r d sm prev an ai i structs (jobs, outs, w) = (jobs', outs', w') \<Longrightarrow>
     map job_uuid jobs' = map job_uuid jobs @ [uuid_counter w..<uuid_counter w + length structs]
     \<and> map job_args jobs' = map job_args jobs @ map (\<lambda>s. Calculation (Value s) prev) structs
     \<and> outs' = outs @ map (\<lambda>v. \<lparr>ccd_structure = OutputReference v [''output'', ''structure''],
                                  ccd_energy = OutputReference v [''output'', ''energy''],
                                  ccd_dir_name = OutputReference v [''dir_name''],
                                  ccd_uuid = v\<rparr>)
                         [uuid_counter w..<uuid_counter w + length structs]
     \<and> uuid_counter w' = uuid_counter w + length structs
     \<and> make_calls w' = make_calls w @ map (\<lambda>s. (sm_name sm, Value s, prev)) structs"
proof (induction structs arbitrary: i jobs outs w)
  case Nil
  then show ?case by simp
next
  case (Cons s structs)
  let ?w1 = "\<lparr>uuid_counter = Suc (uuid_counter w),
              make_calls = make_calls w @ [(sm_name sm, Value s, prev)]\<rparr>"
  from Cons.prems obtain j o1 where
    run: "spawn_loop r d sm prev an ai (Suc i) structs (jobs @ [j], outs @ [o1], ?w1) = (jobs', outs', w')"
    and j: "job_uuid j = uuid_counter w" "job_args j = Calculation (Value s) prev"
    and o1: "o1 = \<lparr>ccd_structure = OutputReference (uuid_counter w) [''output'', ''structure''],
                   ccd_energy = OutputReference (uuid_counter w) [''output'', ''energy''],
                   ccd_dir_name = OutputReference (uuid_counter w) [''dir_name''],
                   ccd_uuid = uuid_counter w\<rparr>"
    by (simp add: Let_def static_maker_make_def)
  have upt: "[uuid_counter w..<uuid_counter w + length (s # structs)] =
        uuid_counter w # [Suc (uuid_counter w)..<Suc (uuid_counter w) + length structs]"
    by (simp add: upt_rec)
  from Cons.IH [OF run] show ?case
    unfolding upt by (simp add: j o1)
qed

text \<open>
  Claim C10. For every call, \<open>spawn_energy_curve_calcs\<close> returns a response whose
  replacement is a flow of static jobs, one for each structure that \<open>interpolate\<close>
  produces from the relaxed structure to the distorted structure over the sorted
  distortions, in that order, each made from its structure and \<open>prev_vasp_dir\<close>. The
  output of the response, which is also the output of the flow, is a list of the same
  length whose records hold, for the job in the same place, the references to its
  \<open>output.structure\<close>, \<open>output.energy\<close> and \<open>dir_name\<close> and its uuid. The first
  \<open>make\<close> call of the function is the one for the relaxed structure; the job it creates
  is in neither the flow nor the outputs.
\<close>

theorem spawn_energy_curve_calcs_flow:
  "let run = spawn_energy_curve_calcs interpolate relaxed_structure distorted_structure
               distortions static_maker prev_vasp_dir add_name add_info w;
       outputs = response_output (fst run);
       distorted_structures = interpolate relaxed_structure distorted_structure (sort distortions);
       uuids = [Suc (uuid_counter w)..<Suc (uuid_counter w) + length distorted_structures]
   in \<exists>jobs.
        response_replace (fst run) = Some (Flow (map Job jobs) outputs ''Flow'')
        \<and> length jobs = length distorted_structures
        \<and> length outputs = length distorted_structures
        \<and> map job_args jobs = map (\<lambda>s. Calculation (Value s) prev_vasp_dir) distorted_structures
        \<and> map job_uuid jobs = uuids
        \<and> outputs = map (\<lambda>v. \<lparr>ccd_structure = OutputReference v [''output'', ''structure''],
                                ccd_energy = OutputReference v [''output'', ''energy''],
                                ccd_dir_name = OutputReference v [''dir_name''],
                                ccd_uuid = v\<rparr>) uuids
        \<and> make_calls (snd run) =
            make_calls w @ (sm_name static_maker, Value relaxed_structure, None)
              # map (\<lambda>s. (sm_name static_maker, Value s, prev_vasp_dir)) distorted_structures
        \<and> uuid_counter w \<notin> set (map job_uuid jobs)
        \<and> uuid_counter w \<notin> set (map ccd_uuid outputs)"
proof -
  define structs where "structs = interpolate relaxed_structure distorted_structure (sort distortions)"
  define w0 :: "'a world" where "w0 = \<lparr>uuid_counter = Suc (uuid_counter w),
       make_calls = make_calls w @ [(sm_name static_maker, Value relaxed_structure, None)]\<rparr>"
  obtain jobs outs w1 where loop:
    "spawn_loop relaxed_structure distorted_structure static_maker prev_vasp_dir add_name add_info
       0 structs ([], [], w0) = (jobs, outs, w1)"
    by (metis prod_cases3)
  have run: "spawn_energy_curve_calcs interpolate relaxed_structure distorted_structure
               distortions static_maker prev_vasp_dir add_name add_info w =
        (\<lparr>response_output = outs, response_replace = Some (Flow (map Job jobs) outs ''Flow''),
          response_stored_data = None\<rparr>, w1)"
    using loop
    by (simp add: spawn_energy_curve_calcs_def static_maker_make_def Let_def structs_def w0_def)
  note facts = spawn_loop_jobs [OF loop]
  have u: "map job_uuid jobs = [Suc (uuid_counter w)..<Suc (uuid_counter w) + length structs]"
    using facts by (simp add: w0_def)
  have a: "map job_args jobs = map (\<lambda>s. Calculation (Value s) prev_vasp_dir) structs"
    using facts by simp
  have o: "outs = map (\<lambda>v. \<lparr>ccd_structure = OutputReference v [''output'', ''structure''],
                                ccd_energy = OutputReference v [''output'', ''energy''],
                                ccd_dir_name = OutputReference v [''dir_name''],
                                ccd_uuid = v\<rparr>)
                    [Suc (uuid_counter w)..<Suc (uuid_counter w) + length structs]"
    using facts by (simp add: w0_def)
  have c: "make_calls w1 =
            make_calls w @ (sm_name static_maker, Value relaxed_structure, None)
              # map (\<lambda>s. (sm_name static_maker, Value s, prev_vasp_dir)) structs"
    using facts by (simp add: w0_def)
  have lj: "length jobs = length structs"
    using arg_cong [OF a, of length] by (simp only: length_map)
  have lo: "length outs = length structs"
  proof -
    have "length outs = length [Suc (uuid_counter w)..<Suc (uuid_counter w) + length structs]"
      by (subst o) (simp only: length_map)
    also have "\<dots> = length structs"
      by (simp only: length_upt add_diff_cancel_left')
    finally show ?thesis .
  qed
  have nj: "uuid_counter w \<notin> set (map job_uuid jobs)"
    unfolding u by (simp only: set_upt atLeastLessThan_iff) simp
  have "map ccd_uuid outs = [Suc (uuid_counter w)..<Suc (uuid_counter w) + length structs]"
    by (subst o) (simp only: map_map o_def ccd_output.simps map_ident)
  then have no: "uuid_counter w \<notin> set (map ccd_uuid outs)"
    by (simp only: set_upt atLeastLessThan_iff) simp
  show ?thesis
    unfolding Let_def structs_def [symmetric] run fst_conv snd_conv response.simps
    by (intro exI [of _ jobs] conjI refl lj lo a u o c nj no)
qed

text \<open>The claim with the sample maker on the distortions 2 and 1.\<close>

theorem spawn_energy_curve_calcs_flow_witness:
  "fst (spawn_energy_curve_calcs sample_interpolate ''A'' ''B'' [2, 1] sample_static_job_maker
          None ''ccd'' None sample_world) =
     \<lparr>response_output =
        [\<lparr>ccd_structure = OutputReference 8 [''output'', ''structure''],
          ccd_energy = OutputReference 8 [''output'', ''energy''],
          ccd_dir_name = OutputReference 8 [''dir_name''], ccd_uuid = 8\<rparr>,
         \<lparr>ccd_structure = OutputReference 9 [''output'', ''structure''],
          ccd_energy = OutputReference 9 [''output'', ''energy''],
          ccd_dir_name = OutputReference 9 [''dir_name''], ccd_uuid = 9\<rparr>],
      response_replace = Some (Flow
        [Job \<lparr>job_uuid = 8, job_name = ''static ccd 0'',
              job_args = Calculation (Value ''A->B 1'') None,
              write_additional_data =
                [(''info:json'', [(''relaxed_structure'', Structure_value ''A''),
                                  (''distorted_structure'', Structure_value ''B'')])]\<rparr>,
         Job \<lparr>job_uuid = 9, job_name = ''static ccd 1'',
              job_args = Calculation (Value ''A->B 2'') None,
              write_additional_data =
                [(''info:json'', [(''relaxed_structure'', Structure_value ''A''),
                                  (''distorted_structure'', Structure_value ''B'')])]\<rparr>]
        [\<lparr>ccd_structure = OutputReference 8 [''output'', ''structure''],
          ccd_energy = OutputReference 8 [''output'', ''energy''],
          ccd_dir_name = OutputReference 8 [''dir_name''], ccd_uuid = 8\<rparr>,
         \<lparr>ccd_structure = OutputReference 9 [''output'', ''structure''],
          ccd_energy = OutputReference 9 [''output'', ''energy''],
          ccd_dir_name = OutputReference 9 [''dir_name''], ccd_uuid = 9\<rparr>] ''Flow''),
      response_stored_data = None\<rparr>
   \<and> make_calls (snd (spawn_energy_curve_calcs sample_interpolate ''A'' ''B'' [2, 1]
          sample_static_job_maker None ''ccd'' None sample_world)) =
       [(''static'', Value ''A'', None), (''static'', Value ''A->B 1'', None),
        (''static'', Value ''A->B 2'', None)]"
proof -
  have "fst (spawn_energy_curve_calcs sample_interpolate ''A'' ''B'' [2, 1] sample_static_job_maker
          None ''ccd'' None sample_world) =
     \<lparr>response_output =
        [\<lparr>ccd_structure = OutputReference 8 [''output'', ''structure''],
          ccd_energy = OutputReference 8 [''output'', ''energy''],
          ccd_dir_name = OutputReference 8 [''dir_name''], ccd_uuid = 8\<rparr>,
         \<lparr>ccd_structure = OutputReference 9 [''output'', ''structure''],
          ccd_energy = OutputReference 9 [''output'', ''energy''],
          ccd_dir_name = OutputReference 9 [''dir_name''], ccd_uuid = 9\<rparr>],
      response_replace = Some (Flow
        [Job \<lparr>job_uuid = 8, job_name = ''static ccd 0'',
              job_args = Calculation (Value ''A->B 1'') None,
              write_additional_data =
                [(''info:json'', [(''relaxed_structure'', Structure_value ''A''),
                                  (''distorted_structure'', Structure_value ''B'')])]\<rparr>,
         Job \<lparr>job_uuid = 9, job_name = ''static ccd 1'',
              job_args = Calculation (Value ''A->B 2'') None,
              write_additional_data =
                [(''info:json'', [(''relaxed_structure'', Structure_value ''A''),
                                  (''distorted_structure'', Structure_value ''B'')])]\<rparr>]
        [\<lparr>ccd_structure = OutputReference 8 [''output'', ''structure''],
          ccd_energy = OutputReference 8 [''output'', ''energy''],
          ccd_dir_name = OutputReference 8 [''dir_name''], ccd_uuid = 8\<rparr>,
         \<lparr>ccd_structure = OutputReference 9 [''output'', ''structure''],
          ccd_energy = OutputReference 9 [''output'', ''energy''],
          ccd_dir_name = OutputReference 9 [''dir_name''], ccd_uuid = 9\<rparr>] ''Flow''),
      response_stored_data = None\<rparr>"
    by code_simp
  moreover have s: "sample_interpolate ''A'' ''B'' (sort [2, 1]) = [''A->B 1'', ''A->B 2'']"
    by code_simp
  moreover have "make_calls (snd (spawn_energy_curve_calcs sample_interpolate ''A'' ''B'' [2, 1]
          sample_static_job_maker None ''ccd'' None sample_world)) =
       make_calls sample_world @ (sm_name sample_static_job_maker, Value ''A'', None)
         # map (\<lambda>s. (sm_name sample_static_job_maker, Value s, None))
             (sample_interpolate ''A'' ''B'' (sort [2, 1]))"
    using spawn_energy_curve_calcs_flow
            [where interpolate = sample_interpolate and relaxed_structure = "''A''"
               and distorted_structure = "''B''" and distortions = "[2, 1]"
               and static_maker = sample_static_job_maker and prev_vasp_dir = None
               and add_name = "''ccd''" and add_info = None and w = sample_world]
    unfolding Let_def by blast
  ultimately show ?thesis
    by (simp add: sample_world_def sample_static_job_maker_def)
qed

end
